theory Spec2Isabelle
  imports Complex_Main
begin

section \<open>Python values, exceptions and the environment of the client\<close>

text \<open>
  The client of \<^verbatim>\<open>n2yo_wrapper.py\<close> receives JSON payloads, passes most of their fields
  through unchanged and builds dictionaries that also hold \<^verbatim>\<open>datetime\<close> objects. One type
  of Python values serves for arguments, payloads and results.

  A string is a list of characters read as code points below 256. A float is idealised
  as a real number (no NaN, no infinities, no rounding). A dictionary is the list of its
  items in insertion order, with distinct keys; all keys that occur are strings.
\<close>

datatype tz = TzUtc | TzFixed int
  \<comment> \<open>\<^verbatim>\<open>timezone.utc\<close>, or the fixed-offset zone that \<^verbatim>\<open>astimezone()\<close> builds, with its
      offset from UTC in seconds\<close>

record aware_datetime =
  wall_us :: int
    \<comment> \<open>the calendar reading, in microseconds since the reading 1970-01-01T00:00:00\<close>
  tzinfo :: tz

datatype pyval =
    PNone
  | PBool bool
  | PInt int
  | PFloat real
  | PStr string
  | PList "pyval list"
  | PDict "(string \<times> pyval) list"
  | PDatetime aware_datetime
  | PNaiveDatetime int
    \<comment> \<open>a datetime without time zone: its calendar reading, in microseconds as above\<close>

datatype pyerr =
    ValueError string
  | RequestException string
    \<comment> \<open>\<^verbatim>\<open>requests.exceptions.RequestException\<close> and its subclasses raised by \<^verbatim>\<open>requests.get\<close>
        and \<^verbatim>\<open>raise_for_status\<close>\<close>
  | JSONDecodeError string
    \<comment> \<open>raised by \<^verbatim>\<open>response.json()\<close>: a subclass of both \<^verbatim>\<open>RequestException\<close> and
        \<^verbatim>\<open>ValueError\<close>\<close>
  | KeyError string
  | TypeError
  | AttributeError
  | TimestampRangeError
    \<comment> \<open>what \<^verbatim>\<open>datetime.fromtimestamp\<close> and \<^verbatim>\<open>astimezone\<close> raise outside the years 1..9999
        (\<^verbatim>\<open>ValueError\<close>, \<^verbatim>\<open>OverflowError\<close> or \<^verbatim>\<open>OSError\<close>, by magnitude and platform); it is
        raised only where no handler distinguishes the three\<close>

fun is_RequestException :: "pyerr \<Rightarrow> bool" where
  "is_RequestException (RequestException m) = True"
| "is_RequestException (JSONDecodeError m) = True"
| "is_RequestException e = False"

fun is_ValueError :: "pyerr \<Rightarrow> bool" where
  "is_ValueError (ValueError m) = True"
| "is_ValueError (JSONDecodeError m) = True"
| "is_ValueError e = False"

fun err_str :: "pyerr \<Rightarrow> string" where
  "err_str (ValueError m) = m"
| "err_str (RequestException m) = m"
| "err_str (JSONDecodeError m) = m"
| "err_str (KeyError k) = k"
| "err_str e = []"

text \<open>Truthiness, as \<^verbatim>\<open>not x\<close>, \<^verbatim>\<open>if x\<close> and \<^verbatim>\<open>all([...])\<close> test it.\<close>

fun truthy :: "pyval \<Rightarrow> bool" where
  "truthy PNone = False"
| "truthy (PBool b) = b"
| "truthy (PInt i) = (i \<noteq> 0)"
| "truthy (PFloat r) = (r \<noteq> 0)"
| "truthy (PStr s) = (s \<noteq> [])"
| "truthy (PList xs) = (xs \<noteq> [])"
| "truthy (PDict kvs) = (kvs \<noteq> [])"
| "truthy (PDatetime d) = True"
| "truthy (PNaiveDatetime n) = True"

text \<open>Sequencing of fallible steps: the first exception ends the computation.\<close>

definition ebind :: "pyerr + 'a \<Rightarrow> ('a \<Rightarrow> pyerr + 'b) \<Rightarrow> pyerr + 'b" where
  "ebind m f = (case m of Inl e \<Rightarrow> Inl e | Inr x \<Rightarrow> f x)"

fun emap :: "('a \<Rightarrow> pyerr + 'b) \<Rightarrow> 'a list \<Rightarrow> pyerr + 'b list" where
  "emap f [] = Inr []"
| "emap f (x # xs) =
     (case f x of
        Inl e \<Rightarrow> Inl e
      | Inr y \<Rightarrow> (case emap f xs of Inl e \<Rightarrow> Inl e | Inr ys \<Rightarrow> Inr (y # ys)))"

subsection \<open>Operators on values\<close>

fun starts_with :: "string \<Rightarrow> string \<Rightarrow> bool" where
  "starts_with [] s = True"
| "starts_with (k # ks) [] = False"
| "starts_with (k # ks) (c # cs) = (k = c \<and> starts_with ks cs)"

fun contains_str :: "string \<Rightarrow> string \<Rightarrow> bool" where
  "contains_str k [] = (k = [])"
| "contains_str k (c # cs) = (starts_with k (c # cs) \<or> contains_str k cs)"

text \<open>\<^verbatim>\<open>key in x\<close> for a string key.\<close>

fun py_in :: "string \<Rightarrow> pyval \<Rightarrow> pyerr + bool" where
  "py_in k (PDict kvs) = Inr (k \<in> set (map fst kvs))"
| "py_in k (PList xs) = Inr (PStr k \<in> set xs)"
| "py_in k (PStr s) = Inr (contains_str k s)"
| "py_in k v = Inl TypeError"

text \<open>\<^verbatim>\<open>x[key]\<close> for a string key.\<close>

fun py_getitem :: "pyval \<Rightarrow> string \<Rightarrow> pyerr + pyval" where
  "py_getitem (PDict kvs) k =
     (case map_of kvs k of None \<Rightarrow> Inl (KeyError k) | Some v \<Rightarrow> Inr v)"
| "py_getitem v k = Inl TypeError"

text \<open>\<^verbatim>\<open>x.get(key, default)\<close>; only a dictionary has the method.\<close>

fun py_get :: "pyval \<Rightarrow> string \<Rightarrow> pyval \<Rightarrow> pyerr + pyval" where
  "py_get (PDict kvs) k d = Inr (case map_of kvs k of None \<Rightarrow> d | Some v \<Rightarrow> v)"
| "py_get v k d = Inl AttributeError"

text \<open>\<^verbatim>\<open>for p in x\<close>: the elements of a list, the keys of a dictionary, the characters of
  a string.\<close>

fun py_iter :: "pyval \<Rightarrow> pyerr + pyval list" where
  "py_iter (PList xs) = Inr xs"
| "py_iter (PDict kvs) = Inr (map (\<lambda>kv. PStr (fst kv)) kvs)"
| "py_iter (PStr s) = Inr (map (\<lambda>c. PStr [c]) s)"
| "py_iter v = Inl TypeError"

text \<open>\<^verbatim>\<open>x > n\<close> for an integer literal \<open>n\<close>.\<close>

fun py_gt :: "pyval \<Rightarrow> int \<Rightarrow> pyerr + bool" where
  "py_gt (PInt i) n = Inr (i > n)"
| "py_gt (PBool b) n = Inr ((if b then 1 else 0) > n)"
| "py_gt (PFloat r) n = Inr (r > of_int n)"
| "py_gt v n = Inl TypeError"

subsection \<open>Decimal numerals\<close>

definition digit_char :: "nat \<Rightarrow> char" where
  "digit_char d = ''0123456789'' ! d"

fun nat_str :: "nat \<Rightarrow> string" where
  "nat_str n = (if n < 10 then [digit_char n] else nat_str (n div 10) @ [digit_char (n mod 10)])"

declare nat_str.simps [simp del]

definition int_str :: "int \<Rightarrow> string" where
  "int_str i = (if i < 0 then CHR ''-'' # nat_str (nat (- i)) else nat_str (nat i))"

subsection \<open>The environment and the observable state\<close>

record response =
  status_code :: nat
  reason :: string
    \<comment> \<open>the text of the status line\<close>
  resp_url :: string
    \<comment> \<open>\<^verbatim>\<open>response.url\<close>, the address the response came from\<close>
  json_body :: "pyerr + pyval"
    \<comment> \<open>what \<^verbatim>\<open>response.json()\<close> gives: the decoded body, or the decoding error\<close>

record env =
  http_get :: "string \<Rightarrow> pyerr + response"
    \<comment> \<open>\<^verbatim>\<open>requests.get\<close>: the remote service and the network\<close>
  py_format :: "pyval \<Rightarrow> string"
    \<comment> \<open>how an f-string renders a float, a container or a datetime\<close>
  local_utcoffset :: "int \<Rightarrow> int"
    \<comment> \<open>the offset of the system's time zone, in seconds, at a POSIX time\<close>

datatype printed =
    HttpRequestFailed string
    \<comment> \<open>\<^verbatim>\<open>print(f"HTTP Request failed: {e}")\<close>\<close>
  | DataError string
    \<comment> \<open>\<^verbatim>\<open>print(f"Data error: {e}")\<close>\<close>
  | ApiRequestFailedWarning string
    \<comment> \<open>\<^verbatim>\<open>print(f"<warning sign> API request failed: {e}")\<close>\<close>

record world =
  requests :: "(string \<times> nat option) list"
    \<comment> \<open>every call of \<^verbatim>\<open>requests.get\<close> so far, oldest first: the URL and the timeout\<close>
  stdout :: "printed list"
    \<comment> \<open>every line printed so far, oldest first\<close>

definition requests_get :: "env \<Rightarrow> string \<Rightarrow> nat option \<Rightarrow> world \<Rightarrow> (pyerr + response) \<times> world" where
  "requests_get E url t w = (http_get E url, w\<lparr>requests := requests w @ [(url, t)]\<rparr>)"

definition http_error_msg :: "response \<Rightarrow> string" where
  "http_error_msg r =
     (if 400 \<le> status_code r \<and> status_code r < 500
      then nat_str (status_code r) @ '' Client Error: '' @ reason r @ '' for url: '' @ resp_url r
      else if 500 \<le> status_code r \<and> status_code r < 600
      then nat_str (status_code r) @ '' Server Error: '' @ reason r @ '' for url: '' @ resp_url r
      else [])"

definition raise_for_status :: "response \<Rightarrow> pyerr + unit" where
  "raise_for_status r =
     (if http_error_msg r \<noteq> [] then Inl (RequestException (http_error_msg r)) else Inr ())"

definition print_line :: "printed \<Rightarrow> world \<Rightarrow> world" where
  "print_line l w = w\<lparr>stdout := stdout w @ [l]\<rparr>"

text \<open>The three statements that open every \<^verbatim>\<open>try\<close> block:
  \<^verbatim>\<open>response = requests.get(url); response.raise_for_status(); data = response.json()\<close>.\<close>

definition fetch_json :: "env \<Rightarrow> string \<Rightarrow> nat option \<Rightarrow> world \<Rightarrow> (pyerr + pyval) \<times> world" where
  "fetch_json E url t w =
     (case requests_get E url t w of
        (Inl e, w') \<Rightarrow> (Inl e, w')
      | (Inr r, w') \<Rightarrow>
          (case raise_for_status r of
             Inl e \<Rightarrow> (Inl e, w')
           | Inr u \<Rightarrow> (json_body r, w')))"

subsection \<open>Rendering values into a URL\<close>

fun py_str :: "env \<Rightarrow> pyval \<Rightarrow> string" where
  "py_str E PNone = ''None''"
| "py_str E (PBool b) = (if b then ''True'' else ''False'')"
| "py_str E (PInt i) = int_str i"
| "py_str E (PStr s) = s"
| "py_str E v = py_format E v"

section \<open>The client\<close>

record client =
  api_key :: string
  base_url :: string

definition N2YOClient :: "string \<Rightarrow> pyerr + client" where
  "N2YOClient key =
     (if key = [] then Inl (ValueError ''API key is required.'')
      else Inr \<lparr>api_key = key, base_url = ''https://api.n2yo.com/rest/v1/satellite''\<rparr>)"

subsection \<open>Strings: \<^verbatim>\<open>str.split("\r\n")\<close> and \<^verbatim>\<open>str.strip()\<close>\<close>

definition CR :: char where "CR = CHR 0x0D"
definition LF :: char where "LF = CHR 0x0A"

text \<open>Splitting at every occurrence of carriage return, line feed, scanning from the left;
  \<open>acc\<close> holds the current segment, reversed. The result is never empty.\<close>

fun split_crlf_from :: "string \<Rightarrow> string \<Rightarrow> string list" where
  "split_crlf_from acc [] = [rev acc]"
| "split_crlf_from acc [c] = [rev (c # acc)]"
| "split_crlf_from acc (c # d # cs) =
     (if c = CR \<and> d = LF then rev acc # split_crlf_from [] cs
      else split_crlf_from (c # acc) (d # cs))"

definition split_crlf :: "string \<Rightarrow> string list" where
  "split_crlf s = split_crlf_from [] s"

text \<open>\<^verbatim>\<open>"\r\n".join(xs)\<close>, the inverse of the split.\<close>

fun join_crlf :: "string list \<Rightarrow> string" where
  "join_crlf [] = []"
| "join_crlf [x] = x"
| "join_crlf (x # y # ys) = x @ [CR, LF] @ join_crlf (y # ys)"

text \<open>The white space of \<^verbatim>\<open>str.strip()\<close> among the code points below 256.\<close>

definition isspace :: "char \<Rightarrow> bool" where
  "isspace c =
     (c \<in> set [CHR 0x09, CHR 0x0A, CHR 0x0B, CHR 0x0C, CHR 0x0D,
               CHR 0x1C, CHR 0x1D, CHR 0x1E, CHR 0x1F, CHR 0x20, CHR 0x85, CHR 0xA0])"

definition py_strip :: "string \<Rightarrow> string" where
  "py_strip s = rev (dropWhile isspace (rev (dropWhile isspace s)))"

text \<open>\<^verbatim>\<open>x.split("\r\n")\<close>: only a string has the method.\<close>

fun py_split_crlf :: "pyval \<Rightarrow> pyerr + string list" where
  "py_split_crlf (PStr s) = Inr (split_crlf s)"
| "py_split_crlf v = Inl AttributeError"

text \<open>\<^verbatim>\<open>xs[i] if len(xs) > i else None\<close>\<close>

definition line_or_none :: "string list \<Rightarrow> nat \<Rightarrow> pyval" where
  "line_or_none xs i = (if length xs > i then PStr (xs ! i) else PNone)"

definition py_getitem2 :: "pyval \<Rightarrow> string \<Rightarrow> string \<Rightarrow> pyerr + pyval" where
  "py_getitem2 v a b = ebind (py_getitem v a) (\<lambda>x. py_getitem x b)"

subsection \<open>The handlers\<close>

text \<open>\<^verbatim>\<open>except RequestException as e: print(...); raise\<close> followed by
  \<^verbatim>\<open>except ValueError as e: print(...); raise\<close>, as in \<^verbatim>\<open>get_tle\<close> and \<^verbatim>\<open>get_positions\<close>:
  the first matching clause prints, and the exception goes on to the caller. Any other
  exception passes unprinted.\<close>

definition reraise_logged :: "(pyerr + pyval) \<times> world \<Rightarrow> (pyerr + pyval) \<times> world" where
  "reraise_logged rw =
     (case rw of
        (Inr v, w) \<Rightarrow> (Inr v, w)
      | (Inl e, w) \<Rightarrow>
          if is_RequestException e then (Inl e, print_line (HttpRequestFailed (err_str e)) w)
          else if is_ValueError e then (Inl e, print_line (DataError (err_str e)) w)
          else (Inl e, w))"

text \<open>\<^verbatim>\<open>except requests.RequestException as e: print(...); return None\<close>, as in
  \<^verbatim>\<open>get_visual_passes\<close>, \<^verbatim>\<open>get_radio_passes\<close> and \<^verbatim>\<open>get_objects_above\<close>.\<close>

definition none_on_request_failure :: "(pyerr + pyval) \<times> world \<Rightarrow> (pyerr + pyval) \<times> world" where
  "none_on_request_failure rw =
     (case rw of
        (Inr v, w) \<Rightarrow> (Inr v, w)
      | (Inl e, w) \<Rightarrow>
          if is_RequestException e
          then (Inr PNone, print_line (ApiRequestFailedWarning (err_str e)) w)
          else (Inl e, w))"

text \<open>What follows \<^verbatim>\<open>data = response.json()\<close> in a \<^verbatim>\<open>try\<close> block touches neither the network
  nor the output, so it is a function of the payload.\<close>

definition in_try ::
  "(pyerr + pyval) \<times> world \<Rightarrow> (pyval \<Rightarrow> pyerr + pyval) \<Rightarrow> (pyerr + pyval) \<times> world" where
  "in_try rw body = (case rw of (r, w) \<Rightarrow> (ebind r body, w))"

subsection \<open>\<^verbatim>\<open>get_tle\<close>\<close>

definition tle_body :: "pyval \<Rightarrow> pyerr + pyval" where
  "tle_body data =
     ebind (py_in ''tle'' data) (\<lambda>has_tle.
       if \<not> has_tle
       then Inl (ValueError ''Invalid response: 'tle' field missing from API response.'')
       else
         ebind (py_getitem data ''tle'') (\<lambda>t.
         ebind (py_split_crlf t) (\<lambda>segments.
         let tle_lines = filter (\<lambda>line. py_strip line \<noteq> []) segments in
         ebind (py_getitem2 data ''info'' ''satid'') (\<lambda>satid.
         ebind (py_getitem2 data ''info'' ''satname'') (\<lambda>satname.
         ebind (py_getitem2 data ''info'' ''transactionscount'') (\<lambda>transactions.
         Inr (PDict
           [(''satid'', satid),
            (''satname'', satname),
            (''transactions'', transactions),
            (''tle'', PDict
               [(''line1'', line_or_none tle_lines 0),
                (''line2'', line_or_none tle_lines 1)])])))))))"

definition tle_url :: "env \<Rightarrow> client \<Rightarrow> pyval \<Rightarrow> string" where
  "tle_url E c sat_id = base_url c @ ''/tle/'' @ py_str E sat_id @ ''&apiKey='' @ api_key c"

definition get_tle :: "env \<Rightarrow> client \<Rightarrow> pyval \<Rightarrow> world \<Rightarrow> (pyerr + pyval) \<times> world" where
  "get_tle E c sat_id w =
     (if \<not> truthy sat_id then (Inl (ValueError ''sat_id is required.''), w)
      else reraise_logged (in_try (fetch_json E (tle_url E c sat_id) None w) tle_body))"

subsection \<open>\<^verbatim>\<open>get_positions\<close>\<close>

definition position_record :: "pyval \<Rightarrow> pyerr + pyval" where
  "position_record p =
     ebind (py_getitem p ''satlatitude'') (\<lambda>latitude.
     ebind (py_getitem p ''satlongitude'') (\<lambda>longitude.
     ebind (py_get p ''sataltitude'' PNone) (\<lambda>altitude.
     ebind (py_getitem p ''azimuth'') (\<lambda>azimuth.
     ebind (py_getitem p ''elevation'') (\<lambda>elevation.
     ebind (py_getitem p ''ra'') (\<lambda>ra.
     ebind (py_getitem p ''dec'') (\<lambda>dec.
     ebind (py_getitem p ''timestamp'') (\<lambda>timestamp.
     Inr (PDict
       [(''latitude'', latitude),
        (''longitude'', longitude),
        (''altitude'', altitude),
        (''azimuth'', azimuth),
        (''elevation'', elevation),
        (''ra'', ra),
        (''dec'', dec),
        (''timestamp'', timestamp)])))))))))"

definition positions_body :: "pyval \<Rightarrow> pyerr + pyval" where
  "positions_body data =
     ebind (py_in ''positions'' data) (\<lambda>has_positions.
       if \<not> has_positions
       then Inl (ValueError ''Invalid response: 'positions' field missing from API response.'')
       else
         ebind (py_getitem data ''positions'') (\<lambda>ps.
         ebind (py_iter ps) (\<lambda>elems.
         ebind (emap position_record elems) (\<lambda>positions.
         ebind (py_getitem2 data ''info'' ''satid'') (\<lambda>satid.
         ebind (py_getitem2 data ''info'' ''satname'') (\<lambda>satname.
         ebind (py_getitem2 data ''info'' ''transactionscount'') (\<lambda>transactions.
         Inr (PDict
           [(''satid'', satid),
            (''satname'', satname),
            (''transactions'', transactions),
            (''positions'', PList positions)]))))))))"

definition positions_url :: "env \<Rightarrow> client \<Rightarrow> pyval \<Rightarrow> pyval \<Rightarrow> pyval \<Rightarrow> pyval \<Rightarrow> pyval \<Rightarrow> string" where
  "positions_url E c sat_id observer_lat observer_lng observer_alt seconds =
     base_url c @ ''/positions/'' @ py_str E sat_id @ ''/'' @ py_str E observer_lat @ ''/''
       @ py_str E observer_lng @ ''/'' @ py_str E observer_alt @ ''/'' @ py_str E seconds
       @ ''/&apiKey='' @ api_key c"

definition get_positions ::
  "env \<Rightarrow> client \<Rightarrow> pyval \<Rightarrow> pyval \<Rightarrow> pyval \<Rightarrow> pyval \<Rightarrow> pyval \<Rightarrow> world \<Rightarrow> (pyerr + pyval) \<times> world" where
  "get_positions E c sat_id observer_lat observer_lng observer_alt seconds w =
     (if \<not> list_all truthy [sat_id, observer_lat, observer_lng]
      then (Inl (ValueError ''Missing required parameters (sat_id, lat, lng).''), w)
      else
        case py_gt seconds 300 of
          Inl e \<Rightarrow> (Inl e, w)
        | Inr too_many \<Rightarrow>
            if too_many
            then (Inl (ValueError ''Seconds parameter cannot exceed 300 (per API limit).''), w)
            else reraise_logged
                   (in_try (fetch_json E
                      (positions_url E c sat_id observer_lat observer_lng observer_alt seconds)
                      None w) positions_body))"

subsection \<open>Datetimes\<close>

text \<open>The readings of 0001-01-01T00:00:00 and 9999-12-31T23:59:59.999999.\<close>

definition MIN_WALL_US :: int where "MIN_WALL_US = - 62135596800 * 1000000"
definition MAX_WALL_US :: int where "MAX_WALL_US = 253402300799 * 1000000 + 999999"

definition in_datetime_range :: "int \<Rightarrow> bool" where
  "in_datetime_range us = (MIN_WALL_US \<le> us \<and> us \<le> MAX_WALL_US)"

definition round_half_even :: "real \<Rightarrow> int" where
  "round_half_even x =
     (let f = \<lfloor>x\<rfloor>; d = x - of_int f
      in if d < 1 / 2 then f else if d > 1 / 2 then f + 1 else if even f then f else f + 1)"

text \<open>The number of microseconds in a timestamp; a float is rounded half to even. For a
  float the product is taken here in the reals, where CPython takes it in double precision:
  the two can differ by a microsecond. For an integer the value is exact.\<close>

fun timestamp_us :: "pyval \<Rightarrow> pyerr + int" where
  "timestamp_us (PInt n) = Inr (n * 1000000)"
| "timestamp_us (PBool b) = Inr ((if b then 1 else 0) * 1000000)"
| "timestamp_us (PFloat r) = Inr (round_half_even (r * 1000000))"
| "timestamp_us v = Inl TypeError"

text \<open>\<^verbatim>\<open>datetime.fromtimestamp(t, tz=timezone.utc)\<close>\<close>

definition fromtimestamp_utc :: "pyval \<Rightarrow> pyerr + aware_datetime" where
  "fromtimestamp_utc t =
     ebind (timestamp_us t) (\<lambda>us.
       if in_datetime_range us then Inr \<lparr>wall_us = us, tzinfo = TzUtc\<rparr>
       else Inl TimestampRangeError)"

fun utcoffset :: "tz \<Rightarrow> int" where
  "utcoffset TzUtc = 0"
| "utcoffset (TzFixed seconds) = seconds"

definition utc_us :: "aware_datetime \<Rightarrow> int" where
  "utc_us d = wall_us d - utcoffset (tzinfo d) * 1000000"

text \<open>\<^verbatim>\<open>d.astimezone()\<close> for an aware \<open>d\<close>: the same instant, read in a fixed-offset zone built
  from the system's offset at that instant.\<close>

definition astimezone :: "env \<Rightarrow> aware_datetime \<Rightarrow> pyerr + aware_datetime" where
  "astimezone E d =
     (let off = local_utcoffset E (utc_us d div 1000000);
          wall = utc_us d + off * 1000000
      in if \<not> (- 86400 < off \<and> off < 86400)
         then Inl (ValueError ''offset must be strictly between -24 and 24 hours'')
         else if in_datetime_range wall then Inr \<lparr>wall_us = wall, tzinfo = TzFixed off\<rparr>
         else Inl TimestampRangeError)"

text \<open>\<^verbatim>\<open>a - b\<close> for aware datetimes, as a number of microseconds: with the same time zone the
  readings are subtracted, otherwise the instants.\<close>

definition datetime_sub :: "aware_datetime \<Rightarrow> aware_datetime \<Rightarrow> int" where
  "datetime_sub a b =
     (if tzinfo a = tzinfo b then wall_us a - wall_us b else utc_us a - utc_us b)"

text \<open>\<^verbatim>\<open>timedelta.total_seconds()\<close> and \<^verbatim>\<open>int(x)\<close> for a float, which truncates towards zero.
  The quotient is exact here, where CPython returns the nearest double; they agree whenever
  the difference is a whole number of seconds, as it is for integer timestamps.\<close>

definition total_seconds :: "int \<Rightarrow> real" where
  "total_seconds td_us = of_int td_us / 1000000"

definition py_int_of_float :: "real \<Rightarrow> int" where
  "py_int_of_float x = (if x \<ge> 0 then \<lfloor>x\<rfloor> else \<lceil>x\<rceil>)"

text \<open>\<^verbatim>\<open>if convert_to_local: start_time = start_time.astimezone(); ...\<close>, for each of the
  datetimes of a pass, in order.\<close>

definition localize :: "env \<Rightarrow> bool \<Rightarrow> aware_datetime \<Rightarrow> pyerr + aware_datetime" where
  "localize E convert_to_local d = (if convert_to_local then astimezone E d else Inr d)"

subsection \<open>\<^verbatim>\<open>get_visual_passes\<close>\<close>

definition visual_pass_record :: "env \<Rightarrow> bool \<Rightarrow> pyval \<Rightarrow> pyerr + pyval" where
  "visual_pass_record E convert_to_local p =
     ebind (py_getitem p ''startUTC'') (\<lambda>startUTC.
     ebind (fromtimestamp_utc startUTC) (\<lambda>start_utc.
     ebind (py_getitem p ''endUTC'') (\<lambda>endUTC.
     ebind (fromtimestamp_utc endUTC) (\<lambda>end_utc.
     ebind (localize E convert_to_local start_utc) (\<lambda>start_time.
     ebind (localize E convert_to_local end_utc) (\<lambda>end_time.
     ebind (py_getitem p ''duration'') (\<lambda>duration.
     ebind (py_getitem p ''startAzCompass'') (\<lambda>start_direction.
     ebind (py_getitem p ''endAzCompass'') (\<lambda>end_direction.
     ebind (py_getitem p ''maxEl'') (\<lambda>max_elevation.
     ebind (py_getitem p ''mag'') (\<lambda>mag.
     Inr (PDict
       [(''start_time'', PDatetime start_time),
        (''end_time'', PDatetime end_time),
        (''duration_sec'', duration),
        (''start_direction'', start_direction),
        (''end_direction'', end_direction),
        (''max_elevation_deg'', max_elevation),
        (''brightness_mag'', mag)]))))))))))))"

text \<open>\<^verbatim>\<open>key not in data or not data[key]\<close>, with the short circuit of \<^verbatim>\<open>or\<close>.\<close>

definition missing_or_falsy :: "string \<Rightarrow> pyval \<Rightarrow> pyerr + bool" where
  "missing_or_falsy key data =
     ebind (py_in key data) (\<lambda>present.
       if \<not> present then Inr True
       else ebind (py_getitem data key) (\<lambda>v. Inr (\<not> truthy v)))"

text \<open>\<^verbatim>\<open>data.get("info", {}).get(field, "Unknown")\<close>\<close>

definition info_or_unknown :: "pyval \<Rightarrow> string \<Rightarrow> pyerr + pyval" where
  "info_or_unknown data field =
     ebind (py_get data ''info'' (PDict [])) (\<lambda>info. py_get info field (PStr ''Unknown''))"

definition visual_passes_body :: "env \<Rightarrow> bool \<Rightarrow> pyval \<Rightarrow> pyerr + pyval" where
  "visual_passes_body E convert_to_local data =
     ebind (missing_or_falsy ''passes'' data) (\<lambda>no_passes.
       if no_passes
       then ebind (info_or_unknown data ''satname'') (\<lambda>name.
              Inr (PDict [(''satellite'', name), (''passes'', PList [])]))
       else
         ebind (py_getitem data ''passes'') (\<lambda>ps.
         ebind (py_iter ps) (\<lambda>elems.
         ebind (emap (visual_pass_record E convert_to_local) elems) (\<lambda>passes.
         ebind (py_getitem2 data ''info'' ''satname'') (\<lambda>name.
         Inr (PDict [(''satellite'', name), (''passes'', PList passes)]))))))"

definition passes_url ::
  "string \<Rightarrow> env \<Rightarrow> client \<Rightarrow> pyval \<Rightarrow> pyval \<Rightarrow> pyval \<Rightarrow> pyval \<Rightarrow> pyval \<Rightarrow> pyval \<Rightarrow> string" where
  "passes_url endpoint E c sat_id lat lng alt days threshold =
     base_url c @ endpoint @ py_str E sat_id @ ''/'' @ py_str E lat @ ''/'' @ py_str E lng
       @ ''/'' @ py_str E alt @ ''/'' @ py_str E days @ ''/'' @ py_str E threshold
       @ ''/&apiKey='' @ api_key c"

definition get_visual_passes ::
  "env \<Rightarrow> client \<Rightarrow> pyval \<Rightarrow> pyval \<Rightarrow> pyval \<Rightarrow> pyval \<Rightarrow> pyval \<Rightarrow> pyval \<Rightarrow> bool \<Rightarrow> world
     \<Rightarrow> (pyerr + pyval) \<times> world" where
  "get_visual_passes E c sat_id lat lng alt days min_visibility convert_to_local w =
     none_on_request_failure
       (in_try (fetch_json E
          (passes_url ''/visualpasses/'' E c sat_id lat lng alt days min_visibility)
          (Some 10) w)
        (visual_passes_body E convert_to_local))"

subsection \<open>\<^verbatim>\<open>get_radio_passes\<close>\<close>

definition radio_pass_record :: "env \<Rightarrow> bool \<Rightarrow> pyval \<Rightarrow> pyerr + pyval" where
  "radio_pass_record E convert_to_local p =
     ebind (py_getitem p ''startUTC'') (\<lambda>startUTC.
     ebind (fromtimestamp_utc startUTC) (\<lambda>start_utc.
     ebind (py_getitem p ''maxUTC'') (\<lambda>maxUTC.
     ebind (fromtimestamp_utc maxUTC) (\<lambda>max_utc.
     ebind (py_getitem p ''endUTC'') (\<lambda>endUTC.
     ebind (fromtimestamp_utc endUTC) (\<lambda>end_utc.
     ebind (localize E convert_to_local start_utc) (\<lambda>start_time.
     ebind (localize E convert_to_local max_utc) (\<lambda>max_time.
     ebind (localize E convert_to_local end_utc) (\<lambda>end_time.
     let duration_sec = py_int_of_float (total_seconds (datetime_sub end_time start_time)) in
     ebind (py_getitem p ''startAzCompass'') (\<lambda>start_direction.
     ebind (py_getitem p ''endAzCompass'') (\<lambda>end_direction.
     ebind (py_getitem p ''maxEl'') (\<lambda>max_elevation.
     Inr (PDict
       [(''start_time'', PDatetime start_time),
        (''max_time'', PDatetime max_time),
        (''end_time'', PDatetime end_time),
        (''duration_sec'', PInt duration_sec),
        (''start_direction'', start_direction),
        (''end_direction'', end_direction),
        (''max_elevation_deg'', max_elevation)])))))))))))))"

definition radio_passes_body :: "env \<Rightarrow> bool \<Rightarrow> pyval \<Rightarrow> pyerr + pyval" where
  "radio_passes_body E convert_to_local data =
     ebind (missing_or_falsy ''passes'' data) (\<lambda>no_passes.
       if no_passes
       then ebind (info_or_unknown data ''satname'') (\<lambda>name.
              Inr (PDict [(''satellite'', name), (''passes'', PList [])]))
       else
         ebind (py_getitem data ''passes'') (\<lambda>ps.
         ebind (py_iter ps) (\<lambda>elems.
         ebind (emap (radio_pass_record E convert_to_local) elems) (\<lambda>passes.
         ebind (py_getitem2 data ''info'' ''satname'') (\<lambda>name.
         Inr (PDict [(''satellite'', name), (''passes'', PList passes)]))))))"

definition get_radio_passes ::
  "env \<Rightarrow> client \<Rightarrow> pyval \<Rightarrow> pyval \<Rightarrow> pyval \<Rightarrow> pyval \<Rightarrow> pyval \<Rightarrow> pyval \<Rightarrow> bool \<Rightarrow> world
     \<Rightarrow> (pyerr + pyval) \<times> world" where
  "get_radio_passes E c sat_id lat lng alt days min_elevation convert_to_local w =
     none_on_request_failure
       (in_try (fetch_json E
          (passes_url ''/radiopasses/'' E c sat_id lat lng alt days min_elevation)
          (Some 10) w)
        (radio_passes_body E convert_to_local))"

subsection \<open>\<^verbatim>\<open>datetime.strptime(s, "%Y-%m-%d")\<close>\<close>

text \<open>
  The format compiles to the regular expression
  \<^verbatim>\<open>(?P<Y>\d\d\d\d)-(?P<m>1[0-2]|0[1-9]|[1-9])-(?P<d>3[0-1]|[1-2]\d|0[1-9]|[1-9]| [1-9])\<close>,
  matched at the start of the string; the match must then cover the whole string, and
  the three numbers must form a date of the calendar.
\<close>

definition is_digit :: "char \<Rightarrow> bool" where
  "is_digit c = (c \<in> set ''0123456789'')"

definition digit_val :: "char \<Rightarrow> nat" where
  "digit_val c = length (takeWhile (\<lambda>d. d \<noteq> c) ''0123456789'')"

definition digit_in :: "nat \<Rightarrow> nat \<Rightarrow> char \<Rightarrow> bool" where
  "digit_in lo hi c = (is_digit c \<and> lo \<le> digit_val c \<and> digit_val c \<le> hi)"

text \<open>Each alternative that matches a prefix, in the order of the alternation, with the
  number read and the rest of the string.\<close>

definition month_alts :: "string \<Rightarrow> (nat \<times> string) list" where
  "month_alts s =
     (case s of
        a # b # r \<Rightarrow>
          (if a = CHR ''1'' \<and> digit_in 0 2 b then [(10 + digit_val b, r)] else []) @
          (if a = CHR ''0'' \<and> digit_in 1 9 b then [(digit_val b, r)] else [])
      | _ \<Rightarrow> []) @
     (case s of
        a # r \<Rightarrow> (if digit_in 1 9 a then [(digit_val a, r)] else [])
      | _ \<Rightarrow> [])"

definition day_alts :: "string \<Rightarrow> (nat \<times> string) list" where
  "day_alts s =
     (case s of
        a # b # r \<Rightarrow>
          (if a = CHR ''3'' \<and> digit_in 0 1 b then [(30 + digit_val b, r)] else []) @
          (if digit_in 1 2 a \<and> is_digit b then [(10 * digit_val a + digit_val b, r)] else []) @
          (if a = CHR ''0'' \<and> digit_in 1 9 b then [(digit_val b, r)] else [])
      | _ \<Rightarrow> []) @
     (case s of
        a # r \<Rightarrow> (if digit_in 1 9 a then [(digit_val a, r)] else [])
      | _ \<Rightarrow> []) @
     (case s of
        a # b # r \<Rightarrow> (if a = CHR '' '' \<and> digit_in 1 9 b then [(digit_val b, r)] else [])
      | _ \<Rightarrow> [])"

text \<open>The year: four digits and the hyphen after them.\<close>

definition match_year :: "string \<Rightarrow> (nat \<times> string) option" where
  "match_year s =
     (case s of
        a # b # c # d # h # r \<Rightarrow>
          if is_digit a \<and> is_digit b \<and> is_digit c \<and> is_digit d \<and> h = CHR ''-''
          then Some (1000 * digit_val a + 100 * digit_val b + 10 * digit_val c + digit_val d, r)
          else None
      | _ \<Rightarrow> None)"

text \<open>The first month alternative after which a hyphen and a day match, with the first
  day alternative that matches there: the month, the day and the unmatched rest.\<close>

fun match_month_day :: "(nat \<times> string) list \<Rightarrow> (nat \<times> nat \<times> string) option" where
  "match_month_day [] = None"
| "match_month_day ((m, r) # alts) =
     (case r of
        h # r' \<Rightarrow>
          (if h = CHR ''-''
           then (case day_alts r' of
                   [] \<Rightarrow> match_month_day alts
                 | (d, rest) # _ \<Rightarrow> Some (m, d, rest))
           else match_month_day alts)
      | [] \<Rightarrow> match_month_day alts)"

definition is_leap :: "nat \<Rightarrow> bool" where
  "is_leap y = (y mod 4 = 0 \<and> (y mod 100 \<noteq> 0 \<or> y mod 400 = 0))"

definition days_in_month :: "nat \<Rightarrow> nat \<Rightarrow> nat" where
  "days_in_month y m =
     (if m = 2 then (if is_leap y then 29 else 28)
      else if m = 4 \<or> m = 6 \<or> m = 9 \<or> m = 11 then 30 else 31)"

definition days_before_year :: "nat \<Rightarrow> nat" where
  "days_before_year y = (let p = y - 1 in p * 365 + p div 4 - p div 100 + p div 400)"

definition days_before_month :: "nat \<Rightarrow> nat \<Rightarrow> nat" where
  "days_before_month y m =
     [0, 0, 31, 59, 90, 120, 151, 181, 212, 243, 273, 304, 334] ! m
       + (if m > 2 \<and> is_leap y then 1 else 0)"

definition ymd2ord :: "nat \<Rightarrow> nat \<Rightarrow> nat \<Rightarrow> nat" where
  "ymd2ord y m d = days_before_year y + days_before_month y m + d"

text \<open>\<^verbatim>\<open>datetime(year, month, day)\<close>: the reading of midnight of that day, or the
  \<^verbatim>\<open>ValueError\<close> of a date outside the calendar.\<close>

definition naive_date :: "nat \<Rightarrow> nat \<Rightarrow> nat \<Rightarrow> pyerr + int" where
  "naive_date y m d =
     (if \<not> (1 \<le> y \<and> y \<le> 9999) then Inl (ValueError ''year is out of range'')
      else if \<not> (1 \<le> m \<and> m \<le> 12) then Inl (ValueError ''month must be in 1..12'')
      else if \<not> (1 \<le> d \<and> d \<le> days_in_month y m)
        then Inl (ValueError ''day is out of range for month'')
      else Inr ((int (ymd2ord y m d) - 719163) * 86400 * 1000000))"

definition strptime_ymd_str :: "string \<Rightarrow> pyerr + int" where
  "strptime_ymd_str s =
     (case match_year s of
        None \<Rightarrow> Inl (ValueError ''time data does not match format'')
      | Some (y, r) \<Rightarrow>
          (case match_month_day (month_alts r) of
             None \<Rightarrow> Inl (ValueError ''time data does not match format'')
           | Some (m, d, rest) \<Rightarrow>
               if rest \<noteq> [] then Inl (ValueError ''unconverted data remains'')
               else naive_date y m d))"

fun strptime_ymd :: "pyval \<Rightarrow> pyerr + int" where
  "strptime_ymd (PStr s) = strptime_ymd_str s"
| "strptime_ymd v = Inl TypeError"

subsection \<open>\<^verbatim>\<open>get_objects_above\<close>\<close>

text \<open>\<^verbatim>\<open>try: launch_date = datetime.strptime(sat["launchDate"], "%Y-%m-%d")\<close> with
  \<^verbatim>\<open>except Exception: launch_date = None\<close>: every exception of the two steps is swallowed.\<close>

definition parse_launch_date :: "pyval \<Rightarrow> pyval" where
  "parse_launch_date sat =
     (case ebind (py_getitem sat ''launchDate'') strptime_ymd of
        Inl e \<Rightarrow> PNone
      | Inr d \<Rightarrow> PNaiveDatetime d)"

definition satellite_record :: "pyval \<Rightarrow> pyerr + pyval" where
  "satellite_record sat =
     (let launch_date = parse_launch_date sat in
      ebind (py_getitem sat ''satid'') (\<lambda>satid.
      ebind (py_getitem sat ''satname'') (\<lambda>satname.
      ebind (py_getitem sat ''intDesignator'') (\<lambda>intDesignator.
      ebind (py_getitem sat ''satlat'') (\<lambda>satlat.
      ebind (py_getitem sat ''satlng'') (\<lambda>satlng.
      ebind (py_getitem sat ''satalt'') (\<lambda>satalt.
      Inr (PDict
        [(''id'', satid),
         (''name'', satname),
         (''intl_designator'', intDesignator),
         (''launch_date'', launch_date),
         (''latitude'', satlat),
         (''longitude'', satlng),
         (''altitude_km'', satalt)]))))))))"

definition objects_above_body :: "pyval \<Rightarrow> pyerr + pyval" where
  "objects_above_body data =
     ebind (missing_or_falsy ''above'' data) (\<lambda>nothing_above.
       if nothing_above
       then ebind (info_or_unknown data ''category'') (\<lambda>category.
              Inr (PDict
                [(''category'', category), (''count'', PInt 0), (''satellites'', PList [])]))
       else
         ebind (py_getitem data ''above'') (\<lambda>above.
         ebind (py_iter above) (\<lambda>elems.
         ebind (emap satellite_record elems) (\<lambda>satellites.
         ebind (py_getitem2 data ''info'' ''category'') (\<lambda>category.
         ebind (py_getitem2 data ''info'' ''satcount'') (\<lambda>satcount.
         Inr (PDict
           [(''category'', category),
            (''count'', satcount),
            (''satellites'', PList satellites)])))))))"

definition above_url :: "env \<Rightarrow> client \<Rightarrow> pyval \<Rightarrow> pyval \<Rightarrow> pyval \<Rightarrow> pyval \<Rightarrow> pyval \<Rightarrow> string" where
  "above_url E c lat lng alt search_radius category_id =
     base_url c @ ''/above/'' @ py_str E lat @ ''/'' @ py_str E lng @ ''/'' @ py_str E alt
       @ ''/'' @ py_str E search_radius @ ''/'' @ py_str E category_id
       @ ''/&apiKey='' @ api_key c"

definition get_objects_above ::
  "env \<Rightarrow> client \<Rightarrow> pyval \<Rightarrow> pyval \<Rightarrow> pyval \<Rightarrow> pyval \<Rightarrow> pyval \<Rightarrow> world \<Rightarrow> (pyerr + pyval) \<times> world" where
  "get_objects_above E c lat lng alt search_radius category_id w =
     none_on_request_failure
       (in_try (fetch_json E (above_url E c lat lng alt search_radius category_id) (Some 15) w)
        objects_above_body)"

subsection \<open>Payloads of the documented shape\<close>

text \<open>The service answers the request for a URL with a success status and a JSON body.\<close>

definition responds_with :: "env \<Rightarrow> string \<Rightarrow> pyval \<Rightarrow> bool" where
  "responds_with E url data =
     (case http_get E url of
        Inl e \<Rightarrow> False
      | Inr r \<Rightarrow> \<not> (400 \<le> status_code r \<and> status_code r < 600) \<and> json_body r = Inr data)"

text \<open>The value of a key in a JSON object.\<close>

fun field :: "pyval \<Rightarrow> string \<Rightarrow> pyval option" where
  "field (PDict kvs) k = map_of kvs k"
| "field v k = None"

definition has_keys :: "string list \<Rightarrow> pyval \<Rightarrow> bool" where
  "has_keys ks v = list_all (\<lambda>k. field v k \<noteq> None) ks"

text \<open>An integer number of epoch seconds that \<^verbatim>\<open>datetime\<close> can represent, in UTC and, where
  the caller asks for local time, in the system's zone too.\<close>

fun epoch_seconds_ok :: "env \<Rightarrow> bool \<Rightarrow> pyval option \<Rightarrow> bool" where
  "epoch_seconds_ok E convert_to_local (Some (PInt n)) =
     (in_datetime_range (n * 1000000) \<and>
      (if convert_to_local
       then - 86400 < local_utcoffset E n \<and> local_utcoffset E n < 86400 \<and>
            in_datetime_range ((n + local_utcoffset E n) * 1000000)
       else True))"
| "epoch_seconds_ok E convert_to_local v = False"

definition visual_pass_ok :: "env \<Rightarrow> bool \<Rightarrow> pyval \<Rightarrow> bool" where
  "visual_pass_ok E convert_to_local p =
     (has_keys [''startUTC'', ''endUTC'', ''duration'', ''startAzCompass'', ''endAzCompass'',
                ''maxEl'', ''mag''] p \<and>
      epoch_seconds_ok E convert_to_local (field p ''startUTC'') \<and>
      epoch_seconds_ok E convert_to_local (field p ''endUTC''))"

definition radio_pass_ok :: "env \<Rightarrow> bool \<Rightarrow> pyval \<Rightarrow> bool" where
  "radio_pass_ok E convert_to_local p =
     (has_keys [''startUTC'', ''maxUTC'', ''endUTC'', ''startAzCompass'', ''endAzCompass'',
                ''maxEl''] p \<and>
      epoch_seconds_ok E convert_to_local (field p ''startUTC'') \<and>
      epoch_seconds_ok E convert_to_local (field p ''maxUTC'') \<and>
      epoch_seconds_ok E convert_to_local (field p ''endUTC''))"

definition position_ok :: "pyval \<Rightarrow> bool" where
  "position_ok p =
     has_keys [''satlatitude'', ''satlongitude'', ''azimuth'', ''elevation'', ''ra'', ''dec'',
               ''timestamp''] p"

definition satellite_ok :: "pyval \<Rightarrow> bool" where
  "satellite_ok sat =
     has_keys [''satid'', ''satname'', ''intDesignator'', ''satlat'', ''satlng'', ''satalt''] sat"

subsection \<open>Fixtures\<close>

text \<open>A client as \<^verbatim>\<open>N2YOClient("KEY")\<close> builds it, a world in which nothing has happened yet,
  and environments whose network answers every request alike: with an exception, or with
  a response of a given status and body from the address asked. The system's zone is UTC in them.\<close>

definition demo_client :: client where
  "demo_client = \<lparr>api_key = ''KEY'', base_url = ''https://api.n2yo.com/rest/v1/satellite''\<rparr>"

definition fresh_world :: world where
  "fresh_world = \<lparr>requests = [], stdout = []\<rparr>"

definition answering :: "(string \<Rightarrow> pyerr + response) \<Rightarrow> env" where
  "answering a = \<lparr>http_get = a, py_format = (\<lambda>v. ''?''), local_utcoffset = (\<lambda>t. 0)\<rparr>"

definition serving :: "pyval \<Rightarrow> env" where
  "serving payload =
     answering (\<lambda>u. Inr \<lparr>status_code = 200, reason = ''OK'', resp_url = u, json_body = Inr payload\<rparr>)"

definition unreachable :: env where
  "unreachable = answering (\<lambda>u. Inl (RequestException ''connection refused''))"

definition failing_with :: "nat \<Rightarrow> env" where
  "failing_with status =
     answering (\<lambda>u. Inr \<lparr>status_code = status, reason = ''Service Unavailable'', resp_url = u,
                          json_body = Inr PNone\<rparr>)"

definition in_zone :: "int \<Rightarrow> env \<Rightarrow> env" where
  "in_zone seconds E = E\<lparr>local_utcoffset := (\<lambda>t. seconds)\<rparr>"

definition iss_info :: pyval where
  "iss_info =
     PDict [(''satid'', PInt 25544), (''satname'', PStr ''SPACE STATION''),
            (''transactionscount'', PInt 4)]"

definition tle_payload :: "string \<Rightarrow> pyval" where
  "tle_payload s = PDict [(''info'', iss_info), (''tle'', PStr s)]"

definition iss_above :: pyval where
  "iss_above =
     PDict [(''satid'', PInt 25544), (''satname'', PStr ''SPACE STATION''),
            (''intDesignator'', PStr ''1998-067A''), (''launchDate'', PStr ''2021-13-40''),
            (''satlat'', PInt 10), (''satlng'', PInt 20), (''satalt'', PInt 400)]"

definition above_payload :: "pyval list \<Rightarrow> pyval" where
  "above_payload sats =
     PDict [(''info'', PDict [(''category'', PStr ''ANY''), (''satcount'', PInt 5)]),
            (''above'', PList sats)]"

definition radio_pass :: "int \<Rightarrow> int \<Rightarrow> int \<Rightarrow> pyval" where
  "radio_pass start_utc end_utc duration =
     PDict [(''startUTC'', PInt start_utc), (''maxUTC'', PInt start_utc),
            (''endUTC'', PInt end_utc), (''duration'', PInt duration),
            (''startAzCompass'', PStr ''N''), (''endAzCompass'', PStr ''S''),
            (''maxEl'', PInt 45)]"

definition visual_pass :: "int \<Rightarrow> int \<Rightarrow> pyval" where
  "visual_pass start_utc end_utc =
     PDict [(''startUTC'', PInt start_utc), (''endUTC'', PInt end_utc),
            (''duration'', PInt (end_utc - start_utc)),
            (''startAzCompass'', PStr ''N''), (''endAzCompass'', PStr ''S''),
            (''maxEl'', PInt 45), (''mag'', PInt (- 2))]"

definition passes_payload :: "pyval list \<Rightarrow> pyval" where
  "passes_payload ps = PDict [(''info'', iss_info), (''passes'', PList ps)]"

definition position_at :: "int \<Rightarrow> pyval" where
  "position_at t =
     PDict [(''satlatitude'', PInt 10), (''satlongitude'', PInt 20), (''azimuth'', PInt 30),
            (''elevation'', PInt 40), (''ra'', PInt 50), (''dec'', PInt 60),
            (''timestamp'', PInt t)]"

definition positions_payload :: "pyval list \<Rightarrow> pyval" where
  "positions_payload ps = PDict [(''info'', iss_info), (''positions'', PList ps)]"

text \<open>The records expected for these entries.\<close>

definition radio_record :: "int \<Rightarrow> int \<Rightarrow> int \<Rightarrow> pyval" where
  "radio_record zone start_utc end_utc =
     PDict [(''start_time'',
             PDatetime \<lparr>wall_us = (start_utc + zone) * 1000000, tzinfo = TzFixed zone\<rparr>),
            (''max_time'',
             PDatetime \<lparr>wall_us = (start_utc + zone) * 1000000, tzinfo = TzFixed zone\<rparr>),
            (''end_time'',
             PDatetime \<lparr>wall_us = (end_utc + zone) * 1000000, tzinfo = TzFixed zone\<rparr>),
            (''duration_sec'', PInt (end_utc - start_utc)),
            (''start_direction'', PStr ''N''), (''end_direction'', PStr ''S''),
            (''max_elevation_deg'', PInt 45)]"

definition visual_record :: "int \<Rightarrow> int \<Rightarrow> pyval" where
  "visual_record start_utc end_utc =
     PDict [(''start_time'', PDatetime \<lparr>wall_us = start_utc * 1000000, tzinfo = TzUtc\<rparr>),
            (''end_time'', PDatetime \<lparr>wall_us = end_utc * 1000000, tzinfo = TzUtc\<rparr>),
            (''duration_sec'', PInt (end_utc - start_utc)),
            (''start_direction'', PStr ''N''), (''end_direction'', PStr ''S''),
            (''max_elevation_deg'', PInt 45), (''brightness_mag'', PInt (- 2))]"

definition position_record_at :: "int \<Rightarrow> pyval" where
  "position_record_at t =
     PDict [(''latitude'', PInt 10), (''longitude'', PInt 20), (''altitude'', PNone),
            (''azimuth'', PInt 30), (''elevation'', PInt 40), (''ra'', PInt 50),
            (''dec'', PInt 60), (''timestamp'', PInt t)]"

definition iss_above_record :: pyval where
  "iss_above_record =
     PDict [(''id'', PInt 25544), (''name'', PStr ''SPACE STATION''),
            (''intl_designator'', PStr ''1998-067A''), (''launch_date'', PNone),
            (''latitude'', PInt 10), (''longitude'', PInt 20), (''altitude_km'', PInt 400)]"

section \<open>Properties\<close>

subsection \<open>Sequencing and the request\<close>

lemma ebind_Inr [simp]: "ebind (Inr x) f = f x"
  by (simp add: ebind_def)

lemma ebind_Inl [simp]: "ebind (Inl e) f = Inl e"
  by (simp add: ebind_def)

lemma fetch_json_raises:
  "http_get E url = Inl e \<Longrightarrow>
   fetch_json E url t w = (Inl e, w\<lparr>requests := requests w @ [(url, t)]\<rparr>)"
  by (simp add: fetch_json_def requests_get_def)

lemma http_error_msg_empty_iff:
  "http_error_msg r = [] \<longleftrightarrow> \<not> (400 \<le> status_code r \<and> status_code r < 600)"
  by (auto simp add: http_error_msg_def)

lemma fetch_json_http_error:
  "http_get E u = Inr r \<Longrightarrow> 400 \<le> status_code r \<and> status_code r < 600 \<Longrightarrow>
   fetch_json E u t w =
     (Inl (RequestException (http_error_msg r)), w\<lparr>requests := requests w @ [(u, t)]\<rparr>)"
  by (simp add: fetch_json_def requests_get_def raise_for_status_def http_error_msg_empty_iff)

lemma fetch_json_ok:
  "http_get E url = Inr r \<Longrightarrow> \<not> (400 \<le> status_code r \<and> status_code r < 600) \<Longrightarrow>
   fetch_json E url t w = (json_body r, w\<lparr>requests := requests w @ [(url, t)]\<rparr>)"
  by (auto simp add: fetch_json_def requests_get_def raise_for_status_def
      http_error_msg_empty_iff)

subsection \<open>Strings and dictionaries\<close>

text \<open>Joining the segments gives the string back, and no segment holds the separator: the
  segments are those of \<^verbatim>\<open>str.split\<close>.\<close>

lemma split_crlf_from_nonempty: "split_crlf_from acc s \<noteq> []"
  by (induction acc s rule: split_crlf_from.induct) auto

lemma join_crlf_Cons: "ys \<noteq> [] \<Longrightarrow> join_crlf (x # ys) = x @ [CR, LF] @ join_crlf ys"
  by (cases ys) auto

lemma join_split_crlf_from: "join_crlf (split_crlf_from acc s) = rev acc @ s"
  by (induction acc s rule: split_crlf_from.induct)
     (auto simp add: join_crlf_Cons split_crlf_from_nonempty)

lemma join_split_crlf: "join_crlf (split_crlf s) = s"
  by (simp add: split_crlf_def join_split_crlf_from)

lemma contains_crlf_snoc:
  "contains_str [CR, LF] (xs @ [c]) \<longleftrightarrow>
   contains_str [CR, LF] xs \<or> (xs \<noteq> [] \<and> last xs = CR \<and> c = LF)"
proof (induction xs)
  case Nil
  then show ?case by simp
next
  case (Cons x xs)
  then show ?case
    by (cases xs) auto
qed

lemma split_crlf_from_no_crlf:
  "\<not> contains_str [CR, LF] (rev acc) \<Longrightarrow>
   \<not> (acc \<noteq> [] \<and> hd acc = CR \<and> s \<noteq> [] \<and> hd s = LF) \<Longrightarrow>
   seg \<in> set (split_crlf_from acc s) \<Longrightarrow> \<not> contains_str [CR, LF] seg"
proof (induction acc s rule: split_crlf_from.induct)
  case (1 acc)
  then show ?case by simp
next
  case (2 acc c)
  then show ?case
    by (auto simp add: contains_crlf_snoc last_rev)
next
  case (3 acc c d cs)
  show ?case
  proof (cases "c = CR \<and> d = LF")
    case True
    then show ?thesis
      using 3 by auto
  next
    case False
    have "\<not> contains_str [CR, LF] (rev (c # acc))"
      using 3(3,4) by (auto simp add: contains_crlf_snoc last_rev)
    moreover have "\<not> (c # acc \<noteq> [] \<and> hd (c # acc) = CR \<and> d # cs \<noteq> [] \<and> hd (d # cs) = LF)"
      using False by simp
    ultimately show ?thesis
      using 3(2) [OF False] 3(5) False by simp
  qed
qed

lemma split_crlf_no_crlf: "seg \<in> set (split_crlf s) \<Longrightarrow> \<not> contains_str [CR, LF] seg"
  using split_crlf_from_no_crlf [of "[]" s seg] by (simp add: split_crlf_def)

lemma py_strip_empty_iff: "py_strip l = [] \<longleftrightarrow> list_all isspace l"
proof -
  have "dropWhile isspace l = [] \<longleftrightarrow> list_all isspace l"
    by (simp add: dropWhile_eq_Nil_conv list_all_iff)
  moreover have "(\<forall>c\<in>set (dropWhile isspace l). isspace c) \<longleftrightarrow> dropWhile isspace l = []"
    by (metis dropWhile_eq_Nil_conv dropWhile_idem)
  ultimately show ?thesis
    by (simp add: py_strip_def dropWhile_eq_Nil_conv)
qed

lemma py_in_dict: "py_in k (PDict kvs) = Inr (map_of kvs k \<noteq> None)"
  using map_of_eq_None_iff [of kvs k] by auto

lemma py_getitem_field: "field v k = Some x \<Longrightarrow> py_getitem v k = Inr x"
  by (cases v) auto

lemma py_in_field: "field v k = Some x \<Longrightarrow> py_in k v = Inr True"
  by (cases v) (simp_all del: py_in.simps(1) add: py_in_dict)

lemma get_tle_responds:
  "truthy sat_id \<Longrightarrow> responds_with E (tle_url E c sat_id) data \<Longrightarrow>
   get_tle E c sat_id w =
     reraise_logged (tle_body data, w\<lparr>requests := requests w @ [(tle_url E c sat_id, None)]\<rparr>)"
  by (auto simp add: get_tle_def responds_with_def in_try_def fetch_json_ok split: sum.splits)

lemma missing_or_falsy_missing: "map_of kvs k = None \<Longrightarrow> missing_or_falsy k (PDict kvs) = Inr True"
  by (simp add: missing_or_falsy_def del: py_in.simps(1) add: py_in_dict)

lemma missing_or_falsy_present: "field data k = Some v \<Longrightarrow> missing_or_falsy k data = Inr (\<not> truthy v)"
  by (simp add: missing_or_falsy_def py_in_field py_getitem_field)

lemma info_or_unknown_dict:
  "map_of kvs ''info'' = None \<or> (\<exists>info. map_of kvs ''info'' = Some (PDict info)) \<Longrightarrow>
   info_or_unknown (PDict kvs) k =
     Inr (case map_of kvs ''info'' of
            Some (PDict info) \<Rightarrow> (case map_of info k of Some n \<Rightarrow> n | None \<Rightarrow> PStr ''Unknown'')
          | _ \<Rightarrow> PStr ''Unknown'')"
  by (auto simp add: info_or_unknown_def)

lemma none_on_request_failure_Inr [simp]: "none_on_request_failure (Inr v, w) = (Inr v, w)"
  by (simp add: none_on_request_failure_def)

lemma get_visual_passes_responds:
  "responds_with E (passes_url ''/visualpasses/'' E c sat_id lat lng alt days min_visibility) data \<Longrightarrow>
   get_visual_passes E c sat_id lat lng alt days min_visibility convert_to_local w =
     none_on_request_failure
       (visual_passes_body E convert_to_local data,
        w\<lparr>requests := requests w @
             [(passes_url ''/visualpasses/'' E c sat_id lat lng alt days min_visibility, Some 10)]\<rparr>)"
  by (auto simp add: get_visual_passes_def responds_with_def in_try_def fetch_json_ok
      split: sum.splits)

lemma get_radio_passes_responds:
  "responds_with E (passes_url ''/radiopasses/'' E c sat_id lat lng alt days min_elevation) data \<Longrightarrow>
   get_radio_passes E c sat_id lat lng alt days min_elevation convert_to_local w =
     none_on_request_failure
       (radio_passes_body E convert_to_local data,
        w\<lparr>requests := requests w @
             [(passes_url ''/radiopasses/'' E c sat_id lat lng alt days min_elevation, Some 10)]\<rparr>)"
  by (auto simp add: get_radio_passes_def responds_with_def in_try_def fetch_json_ok
      split: sum.splits)

lemma get_objects_above_responds:
  "responds_with E (above_url E c lat lng alt search_radius category_id) data \<Longrightarrow>
   get_objects_above E c lat lng alt search_radius category_id w =
     none_on_request_failure
       (objects_above_body data,
        w\<lparr>requests := requests w @
             [(above_url E c lat lng alt search_radius category_id, Some 15)]\<rparr>)"
  by (auto simp add: get_objects_above_def responds_with_def in_try_def fetch_json_ok
      split: sum.splits)

lemma get_positions_responds:
  "list_all truthy [sat_id, observer_lat, observer_lng] \<Longrightarrow> py_gt seconds 300 = Inr False \<Longrightarrow>
   responds_with E (positions_url E c sat_id observer_lat observer_lng observer_alt seconds) data \<Longrightarrow>
   get_positions E c sat_id observer_lat observer_lng observer_alt seconds w =
     reraise_logged
       (positions_body data,
        w\<lparr>requests := requests w @
             [(positions_url E c sat_id observer_lat observer_lng observer_alt seconds, None)]\<rparr>)"
  by (auto simp add: get_positions_def responds_with_def in_try_def fetch_json_ok
      split: sum.splits)

lemma emap_Inr_iff:
  "emap f xs = Inr ys \<longleftrightarrow> list_all2 (\<lambda>x y. f x = Inr y) xs ys"
proof (induction xs arbitrary: ys)
  case Nil
  then show ?case by auto
next
  case (Cons x xs)
  show ?case
    by (cases ys) (auto simp add: Cons.IH [symmetric] split: sum.splits)
qed

lemma emap_nth:
  "emap f xs = Inr ys \<Longrightarrow>
   length ys = length xs \<and> (\<forall>i<length xs. f (xs ! i) = Inr (ys ! i))"
  by (simp add: emap_Inr_iff list_all2_conv_all_nth)

lemma emap_total:
  "\<forall>x\<in>set xs. \<exists>y. f x = Inr y \<Longrightarrow> \<exists>ys. emap f xs = Inr ys"
  by (induction xs) auto

lemma position_record_ok: "position_ok p \<Longrightarrow> \<exists>q. position_record p = Inr q"
proof -
  assume ok: "position_ok p"
  then obtain kvs where p: "p = PDict kvs"
    by (cases p) (auto simp add: position_ok_def has_keys_def)
  from ok obtain a b c d e f g where
    "field p ''satlatitude'' = Some a" "field p ''satlongitude'' = Some b"
    "field p ''azimuth'' = Some c" "field p ''elevation'' = Some d"
    "field p ''ra'' = Some e" "field p ''dec'' = Some f" "field p ''timestamp'' = Some g"
    unfolding position_ok_def has_keys_def by auto
  then show ?thesis
    using p by (simp add: position_record_def py_getitem_field)
qed

lemma satellite_record_ok:
  assumes "field sat ''satid'' = Some a" "field sat ''satname'' = Some b"
    "field sat ''intDesignator'' = Some d" "field sat ''satlat'' = Some x"
    "field sat ''satlng'' = Some y" "field sat ''satalt'' = Some z"
  shows "satellite_record sat =
     Inr (PDict [(''id'', a), (''name'', b), (''intl_designator'', d),
                 (''launch_date'', parse_launch_date sat),
                 (''latitude'', x), (''longitude'', y), (''altitude_km'', z)])"
  using assms by (simp add: satellite_record_def py_getitem_field Let_def)

lemma satellite_record_total: "satellite_ok sat \<Longrightarrow> \<exists>q. satellite_record sat = Inr q"
proof -
  assume "satellite_ok sat"
  then obtain a b d x y z where
    "field sat ''satid'' = Some a" "field sat ''satname'' = Some b"
    "field sat ''intDesignator'' = Some d" "field sat ''satlat'' = Some x"
    "field sat ''satlng'' = Some y" "field sat ''satalt'' = Some z"
    unfolding satellite_ok_def has_keys_def by auto
  then show ?thesis
    using satellite_record_ok by blast
qed

lemma parse_launch_date_None:
  "field sat ''launchDate'' = None \<or>
   (\<exists>v. field sat ''launchDate'' = Some v \<and> isl (strptime_ymd v)) \<Longrightarrow>
   parse_launch_date sat = PNone"
proof (cases sat)
  case (PDict kvs)
  assume "field sat ''launchDate'' = None \<or>
     (\<exists>v. field sat ''launchDate'' = Some v \<and> isl (strptime_ymd v))"
  then show ?thesis
    using PDict by (auto simp add: parse_launch_date_def isl_def)
qed (simp_all add: parse_launch_date_def)

lemma objects_above_body_list:
  assumes "field data ''above'' = Some (PList sats)" "sats \<noteq> []"
    and "emap satellite_record sats = Inr records"
    and "field data ''info'' = Some info"
    and "field info ''category'' = Some category"
    and "field info ''satcount'' = Some satcount"
  shows "objects_above_body data =
     Inr (PDict [(''category'', category), (''count'', satcount),
                 (''satellites'', PList records)])"
  using assms
  by (simp add: objects_above_body_def missing_or_falsy_present py_getitem_field
      py_getitem2_def)

lemma satellite_record_fields:
  assumes "satellite_ok sat" and "satellite_record sat = Inr q"
  shows "field q ''launch_date'' = Some (parse_launch_date sat) \<and>
     field q ''id'' = field sat ''satid'' \<and>
     field q ''name'' = field sat ''satname'' \<and>
     field q ''intl_designator'' = field sat ''intDesignator'' \<and>
     field q ''latitude'' = field sat ''satlat'' \<and>
     field q ''longitude'' = field sat ''satlng'' \<and>
     field q ''altitude_km'' = field sat ''satalt''"
proof -
  from assms(1) obtain a b d x y z where f:
    "field sat ''satid'' = Some a" "field sat ''satname'' = Some b"
    "field sat ''intDesignator'' = Some d" "field sat ''satlat'' = Some x"
    "field sat ''satlng'' = Some y" "field sat ''satalt'' = Some z"
    unfolding satellite_ok_def has_keys_def by auto
  show ?thesis
    using assms(2) f by (auto simp add: satellite_record_ok [OF f])
qed

lemma objects_above_call:
  assumes "responds_with E (above_url E c lat lng alt search_radius category_id) data"
    and "field data ''above'' = Some (PList sats)" and "sats \<noteq> []"
    and "\<forall>sat\<in>set sats. satellite_ok sat"
    and "field data ''info'' = Some info"
    and "field info ''category'' = Some category"
    and "field info ''satcount'' = Some satcount"
  shows "\<exists>records.
      get_objects_above E c lat lng alt search_radius category_id w =
        (Inr (PDict [(''category'', category), (''count'', satcount),
                     (''satellites'', PList records)]),
         w\<lparr>requests := requests w @
              [(above_url E c lat lng alt search_radius category_id, Some 15)]\<rparr>) \<and>
      length records = length sats \<and>
      (\<forall>i<length sats. satellite_record (sats ! i) = Inr (records ! i))"
proof -
  obtain records where r: "emap satellite_record sats = Inr records"
    using emap_total [of sats satellite_record] assms(4) satellite_record_total by blast
  have "objects_above_body data =
      Inr (PDict [(''category'', category), (''count'', satcount),
                  (''satellites'', PList records)])"
    using objects_above_body_list [OF assms(2,3) r assms(5-7)] .
  then show ?thesis
    using emap_nth [OF r] by (simp add: get_objects_above_responds [OF assms(1)])
qed

lemma strptime_2021_13_40:
  "strptime_ymd (PStr ''2021-13-40'') = Inl (ValueError ''time data does not match format'')"
  by (simp add: strptime_ymd_str_def match_year_def month_alts_def day_alts_def is_digit_def
      digit_val_def digit_in_def)

subsection \<open>Timestamps, records and whole calls\<close>

lemma epoch_seconds_ok_PInt:
  "epoch_seconds_ok E conv v \<Longrightarrow> \<exists>n. v = Some (PInt n)"
proof (cases v)
  case None
  assume "epoch_seconds_ok E conv v"
  with None show ?thesis by simp
next
  case (Some x)
  assume "epoch_seconds_ok E conv v"
  with Some show ?thesis by (cases x) simp_all
qed

lemma epoch_seconds_okD:
  assumes "epoch_seconds_ok E conv (field p k)"
  obtains n d where "field p k = Some (PInt n)"
    and "fromtimestamp_utc (PInt n) = Inr \<lparr>wall_us = n * 1000000, tzinfo = TzUtc\<rparr>"
    and "localize E conv \<lparr>wall_us = n * 1000000, tzinfo = TzUtc\<rparr> = Inr d"
    and "utc_us d = n * 1000000"
proof -
  obtain n where n: "field p k = Some (PInt n)"
    using epoch_seconds_ok_PInt [OF assms] by blast
  have ok: "epoch_seconds_ok E conv (Some (PInt n))"
    using assms by (simp only: n)
  have ok': "in_datetime_range (n * 1000000) \<and>
      (if conv
       then - 86400 < local_utcoffset E n \<and> local_utcoffset E n < 86400 \<and>
            in_datetime_range ((n + local_utcoffset E n) * 1000000)
       else True)"
    using ok unfolding epoch_seconds_ok.simps .
  have r: "in_datetime_range (n * 1000000)"
    using ok' by blast
  have f: "fromtimestamp_utc (PInt n) = Inr \<lparr>wall_us = n * 1000000, tzinfo = TzUtc\<rparr>"
    using r by (simp add: fromtimestamp_utc_def)
  show ?thesis
  proof (cases conv)
    case False
    then have "localize E conv \<lparr>wall_us = n * 1000000, tzinfo = TzUtc\<rparr> =
        Inr \<lparr>wall_us = n * 1000000, tzinfo = TzUtc\<rparr>"
      by (simp add: localize_def)
    moreover have "utc_us \<lparr>wall_us = n * 1000000, tzinfo = TzUtc\<rparr> = n * 1000000"
      by (simp add: utc_us_def)
    ultimately show ?thesis
      using that n f by blast
  next
    case True
    define off where "off = local_utcoffset E n"
    have "- 86400 < off \<and> off < 86400 \<and> in_datetime_range ((n + off) * 1000000)"
      using ok' True unfolding off_def by (simp only: if_True)
    then have l: "- 86400 < off" "off < 86400" "in_datetime_range ((n + off) * 1000000)"
      by blast+
    have u: "utc_us \<lparr>wall_us = n * 1000000, tzinfo = TzUtc\<rparr> = n * 1000000"
      by (simp add: utc_us_def)
    have "astimezone E \<lparr>wall_us = n * 1000000, tzinfo = TzUtc\<rparr> =
        Inr \<lparr>wall_us = (n + off) * 1000000, tzinfo = TzFixed off\<rparr>"
      unfolding astimezone_def u Let_def
      using l by (simp add: off_def [symmetric])
    then have "localize E conv \<lparr>wall_us = n * 1000000, tzinfo = TzUtc\<rparr> =
        Inr \<lparr>wall_us = (n + off) * 1000000, tzinfo = TzFixed off\<rparr>"
      using True by (simp add: localize_def)
    moreover have "utc_us \<lparr>wall_us = (n + off) * 1000000, tzinfo = TzFixed off\<rparr> =
        n * 1000000"
      by (simp add: utc_us_def)
    ultimately show ?thesis
      using that n f by blast
  qed
qed

lemma datetime_sub_utc_us: "datetime_sub a b = utc_us a - utc_us b"
  by (simp add: datetime_sub_def utc_us_def)

lemma py_int_total_seconds: "py_int_of_float (total_seconds (k * 1000000)) = k"
  by (simp add: py_int_of_float_def total_seconds_def)

lemma visual_pass_record_ok:
  assumes "visual_pass_ok E conv p"
  shows "\<exists>q. visual_pass_record E conv p = Inr q"
proof -
  from assms have ts: "epoch_seconds_ok E conv (field p ''startUTC'')"
    and te: "epoch_seconds_ok E conv (field p ''endUTC'')"
    by (simp_all add: visual_pass_ok_def)
  from assms obtain a b c d e where f:
    "field p ''duration'' = Some a" "field p ''startAzCompass'' = Some b"
    "field p ''endAzCompass'' = Some c" "field p ''maxEl'' = Some d" "field p ''mag'' = Some e"
    unfolding visual_pass_ok_def has_keys_def by auto
  from ts obtain s ds where s: "field p ''startUTC'' = Some (PInt s)"
    "fromtimestamp_utc (PInt s) = Inr \<lparr>wall_us = s * 1000000, tzinfo = TzUtc\<rparr>"
    "localize E conv \<lparr>wall_us = s * 1000000, tzinfo = TzUtc\<rparr> = Inr ds"
    by (rule epoch_seconds_okD)
  from te obtain n dn where n: "field p ''endUTC'' = Some (PInt n)"
    "fromtimestamp_utc (PInt n) = Inr \<lparr>wall_us = n * 1000000, tzinfo = TzUtc\<rparr>"
    "localize E conv \<lparr>wall_us = n * 1000000, tzinfo = TzUtc\<rparr> = Inr dn"
    by (rule epoch_seconds_okD)
  show ?thesis
    using f s n by (simp add: visual_pass_record_def py_getitem_field)
qed

lemma radio_pass_record_ok:
  assumes "radio_pass_ok E conv p"
  shows "\<exists>q. radio_pass_record E conv p = Inr q \<and>
     (\<forall>s e. field p ''startUTC'' = Some (PInt s) \<and> field p ''endUTC'' = Some (PInt e) \<longrightarrow>
        field q ''duration_sec'' = Some (PInt (e - s)))"
proof -
  from assms have ts: "epoch_seconds_ok E conv (field p ''startUTC'')"
    and tm: "epoch_seconds_ok E conv (field p ''maxUTC'')"
    and te: "epoch_seconds_ok E conv (field p ''endUTC'')"
    by (simp_all add: radio_pass_ok_def)
  from assms obtain b c d where f:
    "field p ''startAzCompass'' = Some b"
    "field p ''endAzCompass'' = Some c" "field p ''maxEl'' = Some d"
    unfolding radio_pass_ok_def has_keys_def by auto
  from ts obtain s ds where s: "field p ''startUTC'' = Some (PInt s)"
    "fromtimestamp_utc (PInt s) = Inr \<lparr>wall_us = s * 1000000, tzinfo = TzUtc\<rparr>"
    "localize E conv \<lparr>wall_us = s * 1000000, tzinfo = TzUtc\<rparr> = Inr ds"
    "utc_us ds = s * 1000000"
    by (rule epoch_seconds_okD)
  from tm obtain m dm where m: "field p ''maxUTC'' = Some (PInt m)"
    "fromtimestamp_utc (PInt m) = Inr \<lparr>wall_us = m * 1000000, tzinfo = TzUtc\<rparr>"
    "localize E conv \<lparr>wall_us = m * 1000000, tzinfo = TzUtc\<rparr> = Inr dm"
    by (rule epoch_seconds_okD)
  from te obtain n dn where n: "field p ''endUTC'' = Some (PInt n)"
    "fromtimestamp_utc (PInt n) = Inr \<lparr>wall_us = n * 1000000, tzinfo = TzUtc\<rparr>"
    "localize E conv \<lparr>wall_us = n * 1000000, tzinfo = TzUtc\<rparr> = Inr dn"
    "utc_us dn = n * 1000000"
    by (rule epoch_seconds_okD)
  have "datetime_sub dn ds = (n - s) * 1000000"
    using s(4) n(4) by (simp add: datetime_sub_utc_us)
  then have dur: "py_int_of_float (total_seconds (datetime_sub dn ds)) = n - s"
    by (simp only: py_int_total_seconds)
  have "radio_pass_record E conv p =
      Inr (PDict
        [(''start_time'', PDatetime ds), (''max_time'', PDatetime dm),
         (''end_time'', PDatetime dn), (''duration_sec'', PInt (n - s)),
         (''start_direction'', b), (''end_direction'', c), (''max_elevation_deg'', d)])"
    using f s(1-3) m n(1-3) dur
    by (simp add: radio_pass_record_def py_getitem_field Let_def)
  then show ?thesis
    using s(1) n(1) by simp
qed

lemma py_get_field: "field v k = Some x \<Longrightarrow> py_get v k d = Inr x"
  by (cases v) auto

lemma info_or_unknown_field:
  "field data ''info'' = Some info \<Longrightarrow> field info k = Some x \<Longrightarrow>
   info_or_unknown data k = Inr x"
  by (simp add: info_or_unknown_def py_get_field)

lemma visual_passes_body_list:
  assumes "field data ''passes'' = Some (PList ps)"
    and "emap (visual_pass_record E conv) ps = Inr qs"
    and "field data ''info'' = Some info"
    and "field info ''satname'' = Some name"
  shows "visual_passes_body E conv data =
     Inr (PDict [(''satellite'', name), (''passes'', PList qs)])"
proof (cases "ps = []")
  case True
  then have "qs = []"
    using assms(2) by simp
  then show ?thesis
    using True assms(1,3,4)
    by (simp add: visual_passes_body_def missing_or_falsy_present info_or_unknown_field)
next
  case False
  then show ?thesis
    using assms
    by (simp add: visual_passes_body_def missing_or_falsy_present py_getitem_field
        py_getitem2_def)
qed

lemma radio_passes_body_list:
  assumes "field data ''passes'' = Some (PList ps)"
    and "emap (radio_pass_record E conv) ps = Inr qs"
    and "field data ''info'' = Some info"
    and "field info ''satname'' = Some name"
  shows "radio_passes_body E conv data =
     Inr (PDict [(''satellite'', name), (''passes'', PList qs)])"
proof (cases "ps = []")
  case True
  then have "qs = []"
    using assms(2) by simp
  then show ?thesis
    using True assms(1,3,4)
    by (simp add: radio_passes_body_def missing_or_falsy_present info_or_unknown_field)
next
  case False
  then show ?thesis
    using assms
    by (simp add: radio_passes_body_def missing_or_falsy_present py_getitem_field
        py_getitem2_def)
qed

lemma positions_body_list:
  assumes "field data ''positions'' = Some (PList ps)"
    and "emap position_record ps = Inr qs"
    and "field data ''info'' = Some info"
    and "field info ''satid'' = Some satid"
    and "field info ''satname'' = Some name"
    and "field info ''transactionscount'' = Some transactions"
  shows "positions_body data =
     Inr (PDict [(''satid'', satid), (''satname'', name), (''transactions'', transactions),
                 (''positions'', PList qs)])"
  using assms
  by (simp add: positions_body_def py_in_field py_getitem_field py_getitem2_def)

lemma reraise_logged_Inr [simp]: "reraise_logged (Inr v, w) = (Inr v, w)"
  by (simp add: reraise_logged_def)

lemma visual_passes_call:
  assumes "responds_with E
             (passes_url ''/visualpasses/'' E c sat_id lat lng alt days min_visibility) data"
    and "field data ''passes'' = Some (PList ps)"
    and "\<forall>p\<in>set ps. visual_pass_ok E conv p"
    and "field data ''info'' = Some info"
    and "field info ''satname'' = Some name"
  shows "\<exists>qs.
      get_visual_passes E c sat_id lat lng alt days min_visibility conv w =
        (Inr (PDict [(''satellite'', name), (''passes'', PList qs)]),
         w\<lparr>requests := requests w @
              [(passes_url ''/visualpasses/'' E c sat_id lat lng alt days min_visibility,
                Some 10)]\<rparr>) \<and>
      length qs = length ps \<and>
      (\<forall>i<length ps. visual_pass_record E conv (ps ! i) = Inr (qs ! i))"
proof -
  obtain qs where q: "emap (visual_pass_record E conv) ps = Inr qs"
    using emap_total [of ps "visual_pass_record E conv"] assms(3) visual_pass_record_ok
    by blast
  show ?thesis
    using emap_nth [OF q] visual_passes_body_list [OF assms(2) q assms(4,5)]
    by (simp add: get_visual_passes_responds [OF assms(1)])
qed

lemma radio_passes_call:
  assumes "responds_with E
             (passes_url ''/radiopasses/'' E c sat_id lat lng alt days min_elevation) data"
    and "field data ''passes'' = Some (PList ps)"
    and "\<forall>p\<in>set ps. radio_pass_ok E conv p"
    and "field data ''info'' = Some info"
    and "field info ''satname'' = Some name"
  shows "\<exists>qs.
      get_radio_passes E c sat_id lat lng alt days min_elevation conv w =
        (Inr (PDict [(''satellite'', name), (''passes'', PList qs)]),
         w\<lparr>requests := requests w @
              [(passes_url ''/radiopasses/'' E c sat_id lat lng alt days min_elevation,
                Some 10)]\<rparr>) \<and>
      length qs = length ps \<and>
      (\<forall>i<length ps. radio_pass_record E conv (ps ! i) = Inr (qs ! i))"
proof -
  have "\<forall>p\<in>set ps. \<exists>q. radio_pass_record E conv p = Inr q"
    using assms(3) radio_pass_record_ok by blast
  then obtain qs where q: "emap (radio_pass_record E conv) ps = Inr qs"
    using emap_total [of ps "radio_pass_record E conv"] by blast
  show ?thesis
    using emap_nth [OF q] radio_passes_body_list [OF assms(2) q assms(4,5)]
    by (simp add: get_radio_passes_responds [OF assms(1)])
qed

lemma positions_call:
  assumes "list_all truthy [sat_id, observer_lat, observer_lng]"
    and "py_gt seconds 300 = Inr False"
    and "responds_with E
           (positions_url E c sat_id observer_lat observer_lng observer_alt seconds) data"
    and "field data ''positions'' = Some (PList ps)"
    and "\<forall>p\<in>set ps. position_ok p"
    and "field data ''info'' = Some info"
    and "field info ''satid'' = Some satid"
    and "field info ''satname'' = Some name"
    and "field info ''transactionscount'' = Some transactions"
  shows "\<exists>qs.
      get_positions E c sat_id observer_lat observer_lng observer_alt seconds w =
        (Inr (PDict [(''satid'', satid), (''satname'', name), (''transactions'', transactions),
                     (''positions'', PList qs)]),
         w\<lparr>requests := requests w @
              [(positions_url E c sat_id observer_lat observer_lng observer_alt seconds,
                None)]\<rparr>) \<and>
      length qs = length ps \<and>
      (\<forall>i<length ps. position_record (ps ! i) = Inr (qs ! i))"
proof -
  obtain qs where q: "emap position_record ps = Inr qs"
    using emap_total [of ps position_record] assms(5) position_record_ok by blast
  show ?thesis
    using emap_nth [OF q] positions_body_list [OF assms(4) q assms(6-9)]
    by (simp add: get_positions_responds [OF assms(1-3)])
qed

lemma objects_above_call_any:
  assumes "responds_with E (above_url E c lat lng alt search_radius category_id) data"
    and "field data ''above'' = Some (PList sats)"
    and "\<forall>sat\<in>set sats. satellite_ok sat"
    and "field data ''info'' = Some info"
    and "field info ''category'' = Some category"
    and "field info ''satcount'' = Some satcount"
  shows "\<exists>records.
      get_objects_above E c lat lng alt search_radius category_id w =
        (Inr (PDict [(''category'', category),
                     (''count'', if sats = [] then PInt 0 else satcount),
                     (''satellites'', PList records)]),
         w\<lparr>requests := requests w @
              [(above_url E c lat lng alt search_radius category_id, Some 15)]\<rparr>) \<and>
      length records = length sats \<and>
      (\<forall>i<length sats. satellite_record (sats ! i) = Inr (records ! i))"
proof (cases "sats = []")
  case True
  then have "objects_above_body data =
      Inr (PDict [(''category'', category), (''count'', PInt 0), (''satellites'', PList [])])"
    using assms(2,4,5)
    by (simp add: objects_above_body_def missing_or_falsy_present info_or_unknown_field)
  then show ?thesis
    using True by (simp add: get_objects_above_responds [OF assms(1)])
next
  case False
  then show ?thesis
    using objects_above_call [OF assms(1,2) False assms(3-6), of w] by simp
qed

lemmas url_simps =
  tle_url_def positions_url_def passes_url_def above_url_def int_str_def nat_str.simps
  digit_char_def

lemmas fixture_simps =
  demo_client_def fresh_world_def answering_def serving_def unreachable_def failing_with_def
  in_zone_def
  iss_info_def tle_payload_def iss_above_def above_payload_def radio_pass_def visual_pass_def
  passes_payload_def position_at_def positions_payload_def radio_record_def visual_record_def
  position_record_at_def iss_above_record_def

lemmas eval_simps =
  responds_with_def in_try_def fetch_json_def requests_get_def raise_for_status_def
  http_error_msg_def
  missing_or_falsy_def py_getitem2_def info_or_unknown_def
  fromtimestamp_utc_def in_datetime_range_def MIN_WALL_US_def MAX_WALL_US_def localize_def
  astimezone_def utc_us_def datetime_sub_def py_int_of_float_def total_seconds_def
  has_keys_def

subsection \<open>Argument checks\<close>

text \<open>
  Claim C1, as amended. The check of both operations is the truthiness of the satellite
  id: every falsy id (the integer 0, \<^verbatim>\<open>None\<close>, \<^verbatim>\<open>False\<close>, an empty string or container) makes
  \<^verbatim>\<open>get_tle\<close> and \<^verbatim>\<open>get_positions\<close> raise \<^verbatim>\<open>ValueError\<close> and leaves the world as it was: no
  request is sent and nothing is printed.
\<close>

theorem falsy_sat_id_rejected:
  "\<not> truthy sat_id \<Longrightarrow>
   get_tle E c sat_id w = (Inl (ValueError ''sat_id is required.''), w) \<and>
   get_positions E c sat_id observer_lat observer_lng observer_alt seconds w =
     (Inl (ValueError ''Missing required parameters (sat_id, lat, lng).''), w)"
  by (simp add: get_tle_def get_positions_def)

theorem falsy_sat_id_rejected_witness:
  "\<not> truthy (PInt 0) \<and>
   get_tle unreachable demo_client (PInt 0) fresh_world =
     (Inl (ValueError ''sat_id is required.''), fresh_world) \<and>
   get_positions unreachable demo_client (PInt 0) (PFloat 40.7) (PFloat (- 74)) (PInt 10)
       (PInt 60) fresh_world =
     (Inl (ValueError ''Missing required parameters (sat_id, lat, lng).''), fresh_world)"
  using falsy_sat_id_rejected [of "PInt 0" unreachable demo_client fresh_world
      "PFloat 40.7" "PFloat (- 74)" "PInt 10" "PInt 60"]
  by simp

text \<open>
  Claim C1 as stated fails for the ids below 0: \<open>-1\<close> is truthy, so \<^verbatim>\<open>get_tle\<close> sends the
  request for it and returns what the service answers, and \<^verbatim>\<open>get_positions\<close> sends its
  request as well.
\<close>

theorem negative_sat_id_counterexample:
  "get_tle (serving (PDict [(''info'', iss_info), (''tle'', PStr ''L1'')])) demo_client
       (PInt (- 1)) fresh_world =
     (Inr (PDict [(''satid'', PInt 25544), (''satname'', PStr ''SPACE STATION''),
                  (''transactions'', PInt 4),
                  (''tle'', PDict [(''line1'', PStr ''L1''), (''line2'', PNone)])]),
      \<lparr>requests = [(''https://api.n2yo.com/rest/v1/satellite/tle/-1&apiKey=KEY'', None)],
       stdout = []\<rparr>) \<and>
   get_positions (serving (PDict [(''info'', iss_info), (''positions'', PList [])])) demo_client
       (PInt (- 1)) (PInt 40) (PInt 9) (PInt 10) (PInt 60) fresh_world =
     (Inr (PDict [(''satid'', PInt 25544), (''satname'', PStr ''SPACE STATION''),
                  (''transactions'', PInt 4), (''positions'', PList [])]),
      \<lparr>requests =
         [(''https://api.n2yo.com/rest/v1/satellite/positions/-1/40/9/10/60/&apiKey=KEY'',
           None)],
       stdout = []\<rparr>)"
  by (simp add: get_tle_def get_positions_def fixture_simps url_simps in_try_def
      reraise_logged_def fetch_json_def requests_get_def raise_for_status_def
      http_error_msg_def tle_body_def
      positions_body_def py_getitem2_def line_or_none_def split_crlf_def CR_def LF_def
      py_strip_def isspace_def)

text \<open>
  Claim C2 at the failing input. With the latitude \<open>0.0\<close> (the equator), or with the
  longitude \<open>0\<close> (the prime meridian), \<^verbatim>\<open>get_positions\<close> raises \<^verbatim>\<open>ValueError\<close> for a missing
  parameter although every parameter was supplied: \<^verbatim>\<open>all([sat_id, observer_lat, observer_lng])\<close>
  tests truthiness, and zero is falsy.
\<close>

theorem zero_coordinate_rejected:
  "get_positions E c (PInt 25544) (PFloat 0) (PFloat (- 74)) (PInt 10) (PInt 60) w =
     (Inl (ValueError ''Missing required parameters (sat_id, lat, lng).''), w) \<and>
   get_positions E c (PInt 25544) (PFloat 51.5) (PInt 0) (PInt 10) (PInt 60) w =
     (Inl (ValueError ''Missing required parameters (sat_id, lat, lng).''), w)"
  by (simp add: get_positions_def)

text \<open>
  Claim C4. Whenever \<^verbatim>\<open>seconds\<close> is a number above 300, an integer or a float,
  \<^verbatim>\<open>get_positions\<close> raises \<^verbatim>\<open>ValueError\<close> and leaves the world as it was, so no request is
  sent: the message is that of the limit when the first check passes, and that of the
  first check otherwise.
\<close>

theorem seconds_over_300_rejected:
  "(300 < n \<longrightarrow>
      get_positions E c sat_id observer_lat observer_lng observer_alt (PInt n) w =
        (Inl (ValueError
           (if list_all truthy [sat_id, observer_lat, observer_lng]
            then ''Seconds parameter cannot exceed 300 (per API limit).''
            else ''Missing required parameters (sat_id, lat, lng).'')), w)) \<and>
   (300 < r \<longrightarrow>
      get_positions E c sat_id observer_lat observer_lng observer_alt (PFloat r) w =
        (Inl (ValueError
           (if list_all truthy [sat_id, observer_lat, observer_lng]
            then ''Seconds parameter cannot exceed 300 (per API limit).''
            else ''Missing required parameters (sat_id, lat, lng).'')), w))"
  by (simp add: get_positions_def)

theorem seconds_over_300_rejected_witness:
  "(300 :: int) < 301 \<and> (300 :: real) < 300.5 \<and>
   get_positions unreachable demo_client (PInt 25544) (PFloat 40.7) (PFloat (- 74)) (PInt 10)
       (PInt 301) fresh_world =
     (Inl (ValueError ''Seconds parameter cannot exceed 300 (per API limit).''), fresh_world) \<and>
   get_positions unreachable demo_client (PInt 25544) (PFloat 40.7) (PFloat (- 74)) (PInt 10)
       (PFloat 300.5) fresh_world =
     (Inl (ValueError ''Seconds parameter cannot exceed 300 (per API limit).''), fresh_world)"
  using seconds_over_300_rejected [of 301 unreachable demo_client "PInt 25544" "PFloat 40.7"
      "PFloat (- 74)" "PInt 10" fresh_world "300.5"]
  by simp

subsection \<open>Transport failures\<close>

text \<open>
  Claim C3. When \<^verbatim>\<open>requests.get\<close> raises a \<^verbatim>\<open>RequestException\<close>, or the response has an
  error status so that \<^verbatim>\<open>raise_for_status\<close> raises one, \<^verbatim>\<open>get_tle\<close> prints
  \<^verbatim>\<open>HTTP Request failed\<close> with the exception's message and raises the same exception to its
  caller,
  whereas \<^verbatim>\<open>get_visual_passes\<close> prints its warning and returns \<^verbatim>\<open>None\<close>. In both the one
  request is on record.
\<close>

theorem transport_failure_policies:
  "(truthy sat_id \<and>
    (http_get E (tle_url E c sat_id) = Inl (RequestException m) \<or>
     (\<exists>r. http_get E (tle_url E c sat_id) = Inr r \<and> 400 \<le> status_code r \<and>
          status_code r < 600 \<and> m = http_error_msg r)) \<longrightarrow>
      get_tle E c sat_id w =
        (Inl (RequestException m),
         w\<lparr>requests := requests w @ [(tle_url E c sat_id, None)],
           stdout := stdout w @ [HttpRequestFailed m]\<rparr>)) \<and>
   (http_get E (passes_url ''/visualpasses/'' E c sat_id lat lng alt days min_visibility) =
        Inl (RequestException m) \<or>
    (\<exists>r. http_get E (passes_url ''/visualpasses/'' E c sat_id lat lng alt days min_visibility) =
            Inr r \<and> 400 \<le> status_code r \<and> status_code r < 600 \<and> m = http_error_msg r) \<longrightarrow>
      get_visual_passes E c sat_id lat lng alt days min_visibility convert_to_local w =
        (Inr PNone,
         w\<lparr>requests := requests w @
              [(passes_url ''/visualpasses/'' E c sat_id lat lng alt days min_visibility,
                Some 10)],
           stdout := stdout w @ [ApiRequestFailedWarning m]\<rparr>))"
  by (auto simp add: get_tle_def get_visual_passes_def fetch_json_raises fetch_json_http_error
      in_try_def reraise_logged_def none_on_request_failure_def print_line_def)

theorem transport_failure_policies_witness:
  "truthy (PInt 25544) \<and>
   http_get unreachable (tle_url unreachable demo_client (PInt 25544)) =
     Inl (RequestException ''connection refused'') \<and>
   get_tle unreachable demo_client (PInt 25544) fresh_world =
     (Inl (RequestException ''connection refused''),
      \<lparr>requests = [(''https://api.n2yo.com/rest/v1/satellite/tle/25544&apiKey=KEY'', None)],
       stdout = [HttpRequestFailed ''connection refused'']\<rparr>) \<and>
   http_get unreachable
     (passes_url ''/visualpasses/'' unreachable demo_client (PInt 25544) (PInt 40) (PInt 9)
        (PInt 10) (PInt 2) (PInt 60)) =
     Inl (RequestException ''connection refused'') \<and>
   get_visual_passes unreachable demo_client (PInt 25544) (PInt 40) (PInt 9) (PInt 10) (PInt 2)
       (PInt 60) False fresh_world =
     (Inr PNone,
      \<lparr>requests =
         [(''https://api.n2yo.com/rest/v1/satellite/visualpasses/25544/40/9/10/2/60/&apiKey=KEY'',
           Some 10)],
       stdout = [ApiRequestFailedWarning ''connection refused'']\<rparr>) \<and>
   http_get (failing_with 503) (tle_url (failing_with 503) demo_client (PInt 25544)) =
     Inr \<lparr>status_code = 503, reason = ''Service Unavailable'',
          resp_url = ''https://api.n2yo.com/rest/v1/satellite/tle/25544&apiKey=KEY'',
          json_body = Inr PNone\<rparr> \<and>
   get_tle (failing_with 503) demo_client (PInt 25544) fresh_world =
     (Inl (RequestException
        (''503 Server Error: Service Unavailable for url: '' @
         ''https://api.n2yo.com/rest/v1/satellite/tle/25544&apiKey=KEY'')),
      \<lparr>requests = [(''https://api.n2yo.com/rest/v1/satellite/tle/25544&apiKey=KEY'', None)],
       stdout =
         [HttpRequestFailed
            (''503 Server Error: Service Unavailable for url: '' @
             ''https://api.n2yo.com/rest/v1/satellite/tle/25544&apiKey=KEY'')]\<rparr>) \<and>
   get_visual_passes (failing_with 503) demo_client (PInt 25544) (PInt 40) (PInt 9) (PInt 10)
       (PInt 2) (PInt 60) False fresh_world =
     (Inr PNone,
      \<lparr>requests =
         [(''https://api.n2yo.com/rest/v1/satellite/visualpasses/25544/40/9/10/2/60/&apiKey=KEY'',
           Some 10)],
       stdout =
         [ApiRequestFailedWarning
            (''503 Server Error: Service Unavailable for url: '' @
             ''https://api.n2yo.com/rest/v1/satellite/visualpasses/25544/40/9/10/2/60/&apiKey=KEY'')]\<rparr>)"
  using
    transport_failure_policies [of "PInt 25544" unreachable demo_client
      "''connection refused''" fresh_world "PInt 40" "PInt 9" "PInt 10" "PInt 2" "PInt 60" False]
    transport_failure_policies [of "PInt 25544" "failing_with 503" demo_client
      "''503 Server Error: Service Unavailable for url: '' @
       ''https://api.n2yo.com/rest/v1/satellite/tle/25544&apiKey=KEY''"
      fresh_world "PInt 40" "PInt 9" "PInt 10" "PInt 2" "PInt 60" False]
    transport_failure_policies [of "PInt 25544" "failing_with 503" demo_client
      "''503 Server Error: Service Unavailable for url: '' @
       ''https://api.n2yo.com/rest/v1/satellite/visualpasses/25544/40/9/10/2/60/&apiKey=KEY''"
      fresh_world "PInt 40" "PInt 9" "PInt 10" "PInt 2" "PInt 60" False]
  by (simp add: fixture_simps url_simps http_error_msg_def)

subsection \<open>The lines of a TLE\<close>

text \<open>
  Claim C5. When the service answers \<^verbatim>\<open>get_tle\<close> with a payload whose \<^verbatim>\<open>tle\<close> field is a
  string and whose \<^verbatim>\<open>info\<close> holds the three fields read from it, the call returns, and
  \<^verbatim>\<open>line1\<close> and \<^verbatim>\<open>line2\<close> of its result are the first and the second of the segments
  between carriage return + line feed that are not blank (not made of white space only),
  or \<^verbatim>\<open>None\<close> where there is no such segment. So the string LINE1 CR LF LINE2 CR LF gives
  LINE1 and LINE2, and a string with one non-blank segment gives that segment and \<^verbatim>\<open>None\<close>.
\<close>

theorem get_tle_lines:
  assumes "truthy sat_id"
    and "responds_with E (tle_url E c sat_id) data"
    and "field data ''tle'' = Some (PStr s)"
    and "field data ''info'' = Some info"
    and "field info ''satid'' = Some satid"
    and "field info ''satname'' = Some satname"
    and "field info ''transactionscount'' = Some transactions"
  shows "get_tle E c sat_id w =
        (Inr (PDict
           [(''satid'', satid), (''satname'', satname), (''transactions'', transactions),
            (''tle'', PDict
               [(''line1'',
                 case filter (\<lambda>l. \<not> list_all isspace l) (split_crlf s) of
                   [] \<Rightarrow> PNone | x # rest \<Rightarrow> PStr x),
                (''line2'',
                 case filter (\<lambda>l. \<not> list_all isspace l) (split_crlf s) of
                   x # y # rest \<Rightarrow> PStr y | _ \<Rightarrow> PNone)])]),
         w\<lparr>requests := requests w @ [(tle_url E c sat_id, None)]\<rparr>) \<and>
      (s = ''LINE1'' @ [CR, LF] @ ''LINE2'' @ [CR, LF] \<longrightarrow>
         fst (get_tle E c sat_id w) =
           Inr (PDict
             [(''satid'', satid), (''satname'', satname), (''transactions'', transactions),
              (''tle'', PDict [(''line1'', PStr ''LINE1''), (''line2'', PStr ''LINE2'')])])) \<and>
      (\<forall>x. filter (\<lambda>l. \<not> list_all isspace l) (split_crlf s) = [x] \<longrightarrow>
         fst (get_tle E c sat_id w) =
           Inr (PDict
             [(''satid'', satid), (''satname'', satname), (''transactions'', transactions),
              (''tle'', PDict [(''line1'', PStr x), (''line2'', PNone)])]))"
proof -
  let ?nb = "filter (\<lambda>l. \<not> list_all isspace l) (split_crlf s)"
  have body: "tle_body data =
      Inr (PDict [(''satid'', satid), (''satname'', satname), (''transactions'', transactions),
                  (''tle'', PDict [(''line1'', line_or_none ?nb 0),
                                   (''line2'', line_or_none ?nb 1)])])"
    using assms(3-7)
    by (simp add: tle_body_def py_getitem2_def py_in_field py_getitem_field py_strip_empty_iff
        Let_def)
  have l1: "line_or_none ?nb 0 = (case ?nb of [] \<Rightarrow> PNone | x # rest \<Rightarrow> PStr x)"
    by (simp add: line_or_none_def split: list.splits)
  have l2: "line_or_none ?nb 1 = (case ?nb of x # y # rest \<Rightarrow> PStr y | _ \<Rightarrow> PNone)"
    by (simp add: line_or_none_def split: list.splits)
  have ex: "s = ''LINE1'' @ [CR, LF] @ ''LINE2'' @ [CR, LF] \<Longrightarrow> ?nb = [''LINE1'', ''LINE2'']"
    by (simp add: split_crlf_def CR_def LF_def isspace_def)
  have call: "get_tle E c sat_id w =
      (Inr (PDict [(''satid'', satid), (''satname'', satname), (''transactions'', transactions),
                   (''tle'', PDict [(''line1'', line_or_none ?nb 0),
                                    (''line2'', line_or_none ?nb 1)])]),
       w\<lparr>requests := requests w @ [(tle_url E c sat_id, None)]\<rparr>)"
    by (simp add: get_tle_responds [OF assms(1,2)] body reraise_logged_def)
  show ?thesis
  proof (intro conjI impI allI)
    show "get_tle E c sat_id w =
        (Inr (PDict
           [(''satid'', satid), (''satname'', satname), (''transactions'', transactions),
            (''tle'', PDict
               [(''line1'', case ?nb of [] \<Rightarrow> PNone | x # rest \<Rightarrow> PStr x),
                (''line2'', case ?nb of x # y # rest \<Rightarrow> PStr y | _ \<Rightarrow> PNone)])]),
         w\<lparr>requests := requests w @ [(tle_url E c sat_id, None)]\<rparr>)"
      using call l1 l2 by simp
  next
    assume "s = ''LINE1'' @ [CR, LF] @ ''LINE2'' @ [CR, LF]"
    then show "fst (get_tle E c sat_id w) =
        Inr (PDict
          [(''satid'', satid), (''satname'', satname), (''transactions'', transactions),
           (''tle'', PDict [(''line1'', PStr ''LINE1''), (''line2'', PStr ''LINE2'')])])"
      using call ex by (simp add: line_or_none_def)
  next
    fix x
    assume "?nb = [x]"
    then show "fst (get_tle E c sat_id w) =
        Inr (PDict
          [(''satid'', satid), (''satname'', satname), (''transactions'', transactions),
           (''tle'', PDict [(''line1'', PStr x), (''line2'', PNone)])])"
      using call by (simp add: line_or_none_def)
  qed
qed

theorem get_tle_lines_witness:
  "truthy (PInt 25544) \<and>
   responds_with (serving (tle_payload (''LINE1'' @ [CR, LF] @ ''LINE2'' @ [CR, LF])))
     (tle_url (serving (tle_payload (''LINE1'' @ [CR, LF] @ ''LINE2'' @ [CR, LF]))) demo_client
        (PInt 25544))
     (tle_payload (''LINE1'' @ [CR, LF] @ ''LINE2'' @ [CR, LF])) \<and>
   field (tle_payload (''LINE1'' @ [CR, LF] @ ''LINE2'' @ [CR, LF])) ''tle'' =
     Some (PStr (''LINE1'' @ [CR, LF] @ ''LINE2'' @ [CR, LF])) \<and>
   field (tle_payload (''LINE1'' @ [CR, LF] @ ''LINE2'' @ [CR, LF])) ''info'' = Some iss_info \<and>
   field iss_info ''satid'' = Some (PInt 25544) \<and>
   field iss_info ''satname'' = Some (PStr ''SPACE STATION'') \<and>
   field iss_info ''transactionscount'' = Some (PInt 4) \<and>
   get_tle (serving (tle_payload (''LINE1'' @ [CR, LF] @ ''LINE2'' @ [CR, LF]))) demo_client
       (PInt 25544) fresh_world =
     (Inr (PDict [(''satid'', PInt 25544), (''satname'', PStr ''SPACE STATION''),
                  (''transactions'', PInt 4),
                  (''tle'', PDict [(''line1'', PStr ''LINE1''), (''line2'', PStr ''LINE2'')])]),
      \<lparr>requests = [(''https://api.n2yo.com/rest/v1/satellite/tle/25544&apiKey=KEY'', None)],
       stdout = []\<rparr>) \<and>
   filter (\<lambda>l. \<not> list_all isspace l) (split_crlf ([CR, LF] @ ''ONLY'' @ [CR, LF] @ ''  '')) =
     [''ONLY''] \<and>
   get_tle (serving (tle_payload ([CR, LF] @ ''ONLY'' @ [CR, LF] @ ''  ''))) demo_client
       (PInt 25544) fresh_world =
     (Inr (PDict [(''satid'', PInt 25544), (''satname'', PStr ''SPACE STATION''),
                  (''transactions'', PInt 4),
                  (''tle'', PDict [(''line1'', PStr ''ONLY''), (''line2'', PNone)])]),
      \<lparr>requests = [(''https://api.n2yo.com/rest/v1/satellite/tle/25544&apiKey=KEY'', None)],
       stdout = []\<rparr>)"
  using
    get_tle_lines [of "PInt 25544"
      "serving (tle_payload (''LINE1'' @ [CR, LF] @ ''LINE2'' @ [CR, LF]))" demo_client
      "tle_payload (''LINE1'' @ [CR, LF] @ ''LINE2'' @ [CR, LF])"
      "''LINE1'' @ [CR, LF] @ ''LINE2'' @ [CR, LF]" iss_info "PInt 25544"
      "PStr ''SPACE STATION''" "PInt 4" fresh_world]
    get_tle_lines [of "PInt 25544"
      "serving (tle_payload ([CR, LF] @ ''ONLY'' @ [CR, LF] @ ''  ''))" demo_client
      "tle_payload ([CR, LF] @ ''ONLY'' @ [CR, LF] @ ''  '')"
      "[CR, LF] @ ''ONLY'' @ [CR, LF] @ ''  ''" iss_info "PInt 25544"
      "PStr ''SPACE STATION''" "PInt 4" fresh_world]
  by (simp add: fixture_simps url_simps responds_with_def
      split_crlf_def CR_def LF_def isspace_def)

subsection \<open>Payloads without passes\<close>

text \<open>
  Claim C7, as amended. When the service answers \<^verbatim>\<open>get_visual_passes\<close> with a JSON object whose
  \<^verbatim>\<open>passes\<close> key is missing or holds the empty list, and whose \<^verbatim>\<open>info\<close>, if there is one, is an
  object, the call returns (it neither raises nor returns \<^verbatim>\<open>None\<close>): the result has the empty
  list of passes, and as satellite the \<^verbatim>\<open>satname\<close> of \<^verbatim>\<open>info\<close> when it is there and the string
  Unknown otherwise.
\<close>

theorem empty_visual_passes:
  assumes "responds_with E
             (passes_url ''/visualpasses/'' E c sat_id lat lng alt days min_visibility) (PDict kvs)"
    and "map_of kvs ''passes'' = None \<or> map_of kvs ''passes'' = Some (PList [])"
    and "map_of kvs ''info'' = None \<or> (\<exists>info. map_of kvs ''info'' = Some (PDict info))"
  shows "get_visual_passes E c sat_id lat lng alt days min_visibility convert_to_local w =
      (Inr (PDict
         [(''satellite'',
           case map_of kvs ''info'' of
             Some (PDict info) \<Rightarrow>
               (case map_of info ''satname'' of Some name \<Rightarrow> name | None \<Rightarrow> PStr ''Unknown'')
           | _ \<Rightarrow> PStr ''Unknown''),
          (''passes'', PList [])]),
       w\<lparr>requests := requests w @
            [(passes_url ''/visualpasses/'' E c sat_id lat lng alt days min_visibility,
              Some 10)]\<rparr>)"
proof -
  have "missing_or_falsy ''passes'' (PDict kvs) = Inr True"
    using assms(2) missing_or_falsy_missing [of kvs "''passes''"]
      missing_or_falsy_present [of "PDict kvs" "''passes''" "PList []"]
    by auto
  then show ?thesis
    using info_or_unknown_dict [OF assms(3), of "''satname''"]
    by (simp add: get_visual_passes_responds [OF assms(1)] visual_passes_body_def)
qed

theorem empty_visual_passes_witness:
  "responds_with
     (serving (PDict [(''info'', PDict [(''satname'', PStr ''SPACE STATION'')]),
                      (''passes'', PList [])]))
     (passes_url ''/visualpasses/''
        (serving (PDict [(''info'', PDict [(''satname'', PStr ''SPACE STATION'')]),
                         (''passes'', PList [])]))
        demo_client (PInt 25544) (PInt 40) (PInt 9) (PInt 10) (PInt 2) (PInt 60))
     (PDict [(''info'', PDict [(''satname'', PStr ''SPACE STATION'')]), (''passes'', PList [])]) \<and>
   map_of [(''info'', PDict [(''satname'', PStr ''SPACE STATION'')]), (''passes'', PList [])]
     ''passes'' = Some (PList []) \<and>
   map_of [(''info'', PDict [(''satname'', PStr ''SPACE STATION'')]), (''passes'', PList [])]
     ''info'' = Some (PDict [(''satname'', PStr ''SPACE STATION'')]) \<and>
   get_visual_passes
       (serving (PDict [(''info'', PDict [(''satname'', PStr ''SPACE STATION'')]),
                        (''passes'', PList [])]))
       demo_client (PInt 25544) (PInt 40) (PInt 9) (PInt 10) (PInt 2) (PInt 60) False
       fresh_world =
     (Inr (PDict [(''satellite'', PStr ''SPACE STATION''), (''passes'', PList [])]),
      \<lparr>requests =
         [(''https://api.n2yo.com/rest/v1/satellite/visualpasses/25544/40/9/10/2/60/&apiKey=KEY'',
           Some 10)],
       stdout = []\<rparr>) \<and>
   responds_with (serving (PDict []))
     (passes_url ''/visualpasses/'' (serving (PDict [])) demo_client (PInt 25544) (PInt 40)
        (PInt 9) (PInt 10) (PInt 2) (PInt 60))
     (PDict []) \<and>
   map_of ([] :: (string \<times> pyval) list) ''passes'' = None \<and>
   map_of ([] :: (string \<times> pyval) list) ''info'' = None \<and>
   get_visual_passes (serving (PDict [])) demo_client (PInt 25544) (PInt 40) (PInt 9)
       (PInt 10) (PInt 2) (PInt 60) False fresh_world =
     (Inr (PDict [(''satellite'', PStr ''Unknown''), (''passes'', PList [])]),
      \<lparr>requests =
         [(''https://api.n2yo.com/rest/v1/satellite/visualpasses/25544/40/9/10/2/60/&apiKey=KEY'',
           Some 10)],
       stdout = []\<rparr>)"
  using
    empty_visual_passes [of
      "serving (PDict [(''info'', PDict [(''satname'', PStr ''SPACE STATION'')]),
                       (''passes'', PList [])])"
      demo_client "PInt 25544" "PInt 40" "PInt 9" "PInt 10" "PInt 2" "PInt 60"
      "[(''info'', PDict [(''satname'', PStr ''SPACE STATION'')]), (''passes'', PList [])]"
      False fresh_world]
    empty_visual_passes [of "serving (PDict [])" demo_client "PInt 25544" "PInt 40" "PInt 9"
      "PInt 10" "PInt 2" "PInt 60" "[]" False fresh_world]
  by (simp add: fixture_simps url_simps responds_with_def)

text \<open>
  Claim C7 as stated fails for a payload whose \<^verbatim>\<open>passes\<close> list is empty and whose \<^verbatim>\<open>info\<close> is
  there but is not an object, such as \<^verbatim>\<open>{"info": null, "passes": []}\<close>: the default of
  \<^verbatim>\<open>data.get("info", {})\<close> serves a missing key only, so the second \<^verbatim>\<open>get\<close> is called on
  \<^verbatim>\<open>None\<close> and raises \<^verbatim>\<open>AttributeError\<close>, which the handler for \<^verbatim>\<open>RequestException\<close> lets through
  to the caller. The request has been sent and nothing is printed.
\<close>

theorem null_info_counterexample:
  "get_visual_passes (serving (PDict [(''info'', PNone), (''passes'', PList [])])) demo_client
       (PInt 25544) (PInt 40) (PInt 9) (PInt 10) (PInt 2) (PInt 60) False fresh_world =
     (Inl AttributeError,
      \<lparr>requests =
         [(''https://api.n2yo.com/rest/v1/satellite/visualpasses/25544/40/9/10/2/60/&apiKey=KEY'',
           Some 10)],
       stdout = []\<rparr>)"
  by (simp add: fixture_simps url_simps eval_simps get_visual_passes_def
      visual_passes_body_def none_on_request_failure_def)

subsection \<open>Objects above\<close>

text \<open>
  Claim C8. When the service answers \<^verbatim>\<open>get_objects_above\<close> with a payload of the documented
  shape (a non-empty \<^verbatim>\<open>above\<close> list whose entries hold the six fields copied from them, and an
  \<^verbatim>\<open>info\<close> with category and count), the call returns one record for each entry; and for
  every entry whose \<^verbatim>\<open>launchDate\<close> is missing, or is a value that \<^verbatim>\<open>strptime\<close> with the format
  \<^verbatim>\<open>%Y-%m-%d\<close> rejects, the record has \<^verbatim>\<open>None\<close> as launch date while its id, name,
  international designator, latitude, longitude and altitude are those of the entry. The
  string 2021-13-40 is rejected.
\<close>

theorem unparsable_launch_date_absent:
  assumes "responds_with E (above_url E c lat lng alt search_radius category_id) data"
    and "field data ''above'' = Some (PList sats)" and "sats \<noteq> []"
    and "\<forall>sat\<in>set sats. satellite_ok sat"
    and "field data ''info'' = Some info"
    and "field info ''category'' = Some category"
    and "field info ''satcount'' = Some satcount"
  shows "\<exists>records.
      get_objects_above E c lat lng alt search_radius category_id w =
        (Inr (PDict [(''category'', category), (''count'', satcount),
                     (''satellites'', PList records)]),
         w\<lparr>requests := requests w @
              [(above_url E c lat lng alt search_radius category_id, Some 15)]\<rparr>) \<and>
      length records = length sats \<and>
      (\<forall>i<length sats.
         field (sats ! i) ''launchDate'' = None \<or>
         (\<exists>v. field (sats ! i) ''launchDate'' = Some v \<and> isl (strptime_ymd v)) \<longrightarrow>
         field (records ! i) ''launch_date'' = Some PNone \<and>
         field (records ! i) ''id'' = field (sats ! i) ''satid'' \<and>
         field (records ! i) ''name'' = field (sats ! i) ''satname'' \<and>
         field (records ! i) ''intl_designator'' = field (sats ! i) ''intDesignator'' \<and>
         field (records ! i) ''latitude'' = field (sats ! i) ''satlat'' \<and>
         field (records ! i) ''longitude'' = field (sats ! i) ''satlng'' \<and>
         field (records ! i) ''altitude_km'' = field (sats ! i) ''satalt'') \<and>
      isl (strptime_ymd (PStr ''2021-13-40''))"
proof -
  obtain records where r:
    "get_objects_above E c lat lng alt search_radius category_id w =
        (Inr (PDict [(''category'', category), (''count'', satcount),
                     (''satellites'', PList records)]),
         w\<lparr>requests := requests w @
              [(above_url E c lat lng alt search_radius category_id, Some 15)]\<rparr>)"
    "length records = length sats"
    "\<forall>i<length sats. satellite_record (sats ! i) = Inr (records ! i)"
    using objects_above_call [OF assms] by blast
  have "field (records ! i) ''launch_date'' = Some PNone \<and>
         field (records ! i) ''id'' = field (sats ! i) ''satid'' \<and>
         field (records ! i) ''name'' = field (sats ! i) ''satname'' \<and>
         field (records ! i) ''intl_designator'' = field (sats ! i) ''intDesignator'' \<and>
         field (records ! i) ''latitude'' = field (sats ! i) ''satlat'' \<and>
         field (records ! i) ''longitude'' = field (sats ! i) ''satlng'' \<and>
         field (records ! i) ''altitude_km'' = field (sats ! i) ''satalt''"
    if i: "i < length sats"
      and bad: "field (sats ! i) ''launchDate'' = None \<or>
         (\<exists>v. field (sats ! i) ''launchDate'' = Some v \<and> isl (strptime_ymd v))"
    for i
  proof -
    have ok: "satellite_ok (sats ! i)"
      using assms(4) i by simp
    have rec: "satellite_record (sats ! i) = Inr (records ! i)"
      using r(3) i by simp
    show ?thesis
      using satellite_record_fields [OF ok rec] parse_launch_date_None [OF bad] by simp
  qed
  moreover have "isl (strptime_ymd (PStr ''2021-13-40''))"
    unfolding strptime_2021_13_40 by simp
  ultimately show ?thesis
    using r(1,2) by blast
qed

theorem unparsable_launch_date_absent_witness:
  "responds_with (serving (above_payload [iss_above]))
     (above_url (serving (above_payload [iss_above])) demo_client (PInt 40) (PInt 9) (PInt 10)
        (PInt 90) (PInt 0))
     (above_payload [iss_above]) \<and>
   field (above_payload [iss_above]) ''above'' = Some (PList [iss_above]) \<and>
   [iss_above] \<noteq> [] \<and>
   satellite_ok iss_above \<and>
   field (above_payload [iss_above]) ''info'' =
     Some (PDict [(''category'', PStr ''ANY''), (''satcount'', PInt 5)]) \<and>
   field (PDict [(''category'', PStr ''ANY''), (''satcount'', PInt 5)]) ''category'' =
     Some (PStr ''ANY'') \<and>
   field (PDict [(''category'', PStr ''ANY''), (''satcount'', PInt 5)]) ''satcount'' =
     Some (PInt 5) \<and>
   field (iss_above) ''launchDate'' = Some (PStr ''2021-13-40'') \<and>
   isl (strptime_ymd (PStr ''2021-13-40'')) \<and>
   get_objects_above (serving (above_payload [iss_above])) demo_client (PInt 40) (PInt 9)
       (PInt 10) (PInt 90) (PInt 0) fresh_world =
     (Inr (PDict
        [(''category'', PStr ''ANY''), (''count'', PInt 5),
         (''satellites'', PList
            [PDict [(''id'', PInt 25544), (''name'', PStr ''SPACE STATION''),
                    (''intl_designator'', PStr ''1998-067A''), (''launch_date'', PNone),
                    (''latitude'', PInt 10), (''longitude'', PInt 20),
                    (''altitude_km'', PInt 400)]])]),
      \<lparr>requests = [(''https://api.n2yo.com/rest/v1/satellite/above/40/9/10/90/0/&apiKey=KEY'',
                    Some 15)],
       stdout = []\<rparr>)"
  using unparsable_launch_date_absent [of "serving (above_payload [iss_above])" demo_client
      "PInt 40" "PInt 9" "PInt 10" "PInt 90" "PInt 0" "above_payload [iss_above]" "[iss_above]"
      "PDict [(''category'', PStr ''ANY''), (''satcount'', PInt 5)]" "PStr ''ANY''" "PInt 5"
      fresh_world]
  by (simp add: fixture_simps url_simps responds_with_def satellite_ok_def has_keys_def
      get_objects_above_def in_try_def fetch_json_def requests_get_def raise_for_status_def
      http_error_msg_def
      objects_above_body_def missing_or_falsy_def py_getitem2_def satellite_record_def
      parse_launch_date_def strptime_ymd_str_def match_year_def month_alts_def day_alts_def
      is_digit_def digit_val_def digit_in_def)

text \<open>
  Claim C10. When the \<^verbatim>\<open>above\<close> list of the payload is not empty, the \<^verbatim>\<open>count\<close> of the result
  of \<^verbatim>\<open>get_objects_above\<close> is the \<^verbatim>\<open>satcount\<close> of the payload's \<^verbatim>\<open>info\<close>, whatever that value is
  and however many satellites the list holds, while the result has one satellite for each
  entry of the list. When the list is missing or empty, the count is 0 and the list of
  satellites is empty.
\<close>

theorem count_is_satcount:
  "(responds_with E (above_url E c lat lng alt search_radius category_id) data \<and>
    field data ''above'' = Some (PList sats) \<and> sats \<noteq> [] \<and>
    (\<forall>sat\<in>set sats. satellite_ok sat) \<and>
    field data ''info'' = Some info \<and>
    field info ''category'' = Some category \<and>
    field info ''satcount'' = Some satcount \<longrightarrow>
    (\<exists>records.
       get_objects_above E c lat lng alt search_radius category_id w =
         (Inr (PDict [(''category'', category), (''count'', satcount),
                      (''satellites'', PList records)]),
          w\<lparr>requests := requests w @
               [(above_url E c lat lng alt search_radius category_id, Some 15)]\<rparr>) \<and>
       length records = length sats)) \<and>
   (responds_with E (above_url E c lat lng alt search_radius category_id) (PDict kvs) \<and>
    (map_of kvs ''above'' = None \<or> map_of kvs ''above'' = Some (PList [])) \<and>
    (map_of kvs ''info'' = None \<or> (\<exists>i. map_of kvs ''info'' = Some (PDict i))) \<longrightarrow>
    get_objects_above E c lat lng alt search_radius category_id w =
      (Inr (PDict
         [(''category'',
           case map_of kvs ''info'' of
             Some (PDict i) \<Rightarrow>
               (case map_of i ''category'' of Some n \<Rightarrow> n | None \<Rightarrow> PStr ''Unknown'')
           | _ \<Rightarrow> PStr ''Unknown''),
          (''count'', PInt 0),
          (''satellites'', PList [])]),
       w\<lparr>requests := requests w @
            [(above_url E c lat lng alt search_radius category_id, Some 15)]\<rparr>))"
proof (intro conjI impI)
  assume a: "responds_with E (above_url E c lat lng alt search_radius category_id) data \<and>
    field data ''above'' = Some (PList sats) \<and> sats \<noteq> [] \<and>
    (\<forall>sat\<in>set sats. satellite_ok sat) \<and>
    field data ''info'' = Some info \<and>
    field info ''category'' = Some category \<and>
    field info ''satcount'' = Some satcount"
  then show "\<exists>records.
       get_objects_above E c lat lng alt search_radius category_id w =
         (Inr (PDict [(''category'', category), (''count'', satcount),
                      (''satellites'', PList records)]),
          w\<lparr>requests := requests w @
               [(above_url E c lat lng alt search_radius category_id, Some 15)]\<rparr>) \<and>
       length records = length sats"
    using objects_above_call [of E c lat lng alt search_radius category_id data sats info
        category satcount w]
    by blast
next
  assume b: "responds_with E (above_url E c lat lng alt search_radius category_id) (PDict kvs) \<and>
    (map_of kvs ''above'' = None \<or> map_of kvs ''above'' = Some (PList [])) \<and>
    (map_of kvs ''info'' = None \<or> (\<exists>i. map_of kvs ''info'' = Some (PDict i)))"
  then have "missing_or_falsy ''above'' (PDict kvs) = Inr True"
    using missing_or_falsy_missing [of kvs "''above''"]
      missing_or_falsy_present [of "PDict kvs" "''above''" "PList []"]
    by auto
  moreover have "info_or_unknown (PDict kvs) ''category'' =
     Inr (case map_of kvs ''info'' of
            Some (PDict i) \<Rightarrow> (case map_of i ''category'' of Some n \<Rightarrow> n | None \<Rightarrow> PStr ''Unknown'')
          | _ \<Rightarrow> PStr ''Unknown'')"
    using b info_or_unknown_dict [of kvs "''category''"] by blast
  ultimately show "get_objects_above E c lat lng alt search_radius category_id w =
      (Inr (PDict
         [(''category'',
           case map_of kvs ''info'' of
             Some (PDict i) \<Rightarrow>
               (case map_of i ''category'' of Some n \<Rightarrow> n | None \<Rightarrow> PStr ''Unknown'')
           | _ \<Rightarrow> PStr ''Unknown''),
          (''count'', PInt 0),
          (''satellites'', PList [])]),
       w\<lparr>requests := requests w @
            [(above_url E c lat lng alt search_radius category_id, Some 15)]\<rparr>)"
    using b get_objects_above_responds [of E c lat lng alt search_radius category_id "PDict kvs" w]
    by (simp add: objects_above_body_def)
qed

theorem count_is_satcount_witness:
  "responds_with (serving (above_payload [iss_above]))
     (above_url (serving (above_payload [iss_above])) demo_client (PInt 40) (PInt 9) (PInt 10)
        (PInt 90) (PInt 0))
     (above_payload [iss_above]) \<and>
   field (above_payload [iss_above]) ''above'' = Some (PList [iss_above]) \<and>
   [iss_above] \<noteq> [] \<and>
   satellite_ok iss_above \<and>
   field (above_payload [iss_above]) ''info'' =
     Some (PDict [(''category'', PStr ''ANY''), (''satcount'', PInt 5)]) \<and>
   field (PDict [(''category'', PStr ''ANY''), (''satcount'', PInt 5)]) ''category'' =
     Some (PStr ''ANY'') \<and>
   field (PDict [(''category'', PStr ''ANY''), (''satcount'', PInt 5)]) ''satcount'' =
     Some (PInt 5) \<and>
   fst (get_objects_above (serving (above_payload [iss_above])) demo_client (PInt 40) (PInt 9)
          (PInt 10) (PInt 90) (PInt 0) fresh_world) =
     Inr (PDict
        [(''category'', PStr ''ANY''), (''count'', PInt 5),
         (''satellites'', PList
            [PDict [(''id'', PInt 25544), (''name'', PStr ''SPACE STATION''),
                    (''intl_designator'', PStr ''1998-067A''), (''launch_date'', PNone),
                    (''latitude'', PInt 10), (''longitude'', PInt 20),
                    (''altitude_km'', PInt 400)]])]) \<and>
   responds_with (serving (above_payload []))
     (above_url (serving (above_payload [])) demo_client (PInt 40) (PInt 9) (PInt 10) (PInt 90)
        (PInt 0))
     (above_payload []) \<and>
   map_of [(''info'', PDict [(''category'', PStr ''ANY''), (''satcount'', PInt 5)]),
           (''above'', PList [])] ''above'' = Some (PList []) \<and>
   map_of [(''info'', PDict [(''category'', PStr ''ANY''), (''satcount'', PInt 5)]),
           (''above'', PList [])] ''info'' =
     Some (PDict [(''category'', PStr ''ANY''), (''satcount'', PInt 5)]) \<and>
   fst (get_objects_above (serving (above_payload [])) demo_client (PInt 40) (PInt 9) (PInt 10)
          (PInt 90) (PInt 0) fresh_world) =
     Inr (PDict [(''category'', PStr ''ANY''), (''count'', PInt 0), (''satellites'', PList [])])"
  using
    count_is_satcount [of "serving (above_payload [iss_above])" demo_client "PInt 40" "PInt 9"
      "PInt 10" "PInt 90" "PInt 0" "above_payload [iss_above]" "[iss_above]"
      "PDict [(''category'', PStr ''ANY''), (''satcount'', PInt 5)]" "PStr ''ANY''" "PInt 5"
      fresh_world "[]"]
    count_is_satcount [of "serving (above_payload [])" demo_client "PInt 40" "PInt 9"
      "PInt 10" "PInt 90" "PInt 0" PNone "[]" PNone PNone PNone fresh_world
      "[(''info'', PDict [(''category'', PStr ''ANY''), (''satcount'', PInt 5)]),
        (''above'', PList [])]"]
  by (simp add: fixture_simps url_simps responds_with_def satellite_ok_def has_keys_def
      get_objects_above_def in_try_def fetch_json_def requests_get_def raise_for_status_def
      http_error_msg_def
      objects_above_body_def missing_or_falsy_def py_getitem2_def satellite_record_def
      parse_launch_date_def strptime_ymd_str_def match_year_def month_alts_def day_alts_def
      is_digit_def digit_val_def digit_in_def)

subsection \<open>Radio passes\<close>

text \<open>
  Claim C6. When the service answers \<^verbatim>\<open>get_radio_passes\<close> with a payload of the documented
  shape (a list of passes whose timestamps are integer epoch seconds that \<^verbatim>\<open>datetime\<close> can
  represent, and an \<^verbatim>\<open>info\<close> with the satellite's name), the call returns one record for each
  pass, and the \<^verbatim>\<open>duration_sec\<close> of each record is \<^verbatim>\<open>endUTC\<close> minus \<^verbatim>\<open>startUTC\<close> of its pass,
  with or without the conversion to local time. Nothing is assumed of a \<^verbatim>\<open>duration\<close> field of
  the pass: the code does not read it. So \<^verbatim>\<open>startUTC\<close> 1000 and \<^verbatim>\<open>endUTC\<close> 1090 give 90, also
  where the payload says 5.
\<close>

theorem radio_duration_computed:
  assumes "responds_with E
             (passes_url ''/radiopasses/'' E c sat_id lat lng alt days min_elevation) data"
    and "field data ''passes'' = Some (PList ps)"
    and "list_all (radio_pass_ok E convert_to_local) ps"
    and "field data ''info'' = Some info"
    and "field info ''satname'' = Some name"
  shows "\<exists>qs.
      get_radio_passes E c sat_id lat lng alt days min_elevation convert_to_local w =
        (Inr (PDict [(''satellite'', name), (''passes'', PList qs)]),
         w\<lparr>requests := requests w @
              [(passes_url ''/radiopasses/'' E c sat_id lat lng alt days min_elevation,
                Some 10)]\<rparr>) \<and>
      length qs = length ps \<and>
      (\<forall>i<length ps. \<forall>s e.
         field (ps ! i) ''startUTC'' = Some (PInt s) \<and>
         field (ps ! i) ''endUTC'' = Some (PInt e) \<longrightarrow>
         field (qs ! i) ''duration_sec'' = Some (PInt (e - s)))"
proof -
  have ok: "\<forall>p\<in>set ps. radio_pass_ok E convert_to_local p"
    using assms(3) by (simp add: list_all_iff)
  obtain qs where q:
    "get_radio_passes E c sat_id lat lng alt days min_elevation convert_to_local w =
        (Inr (PDict [(''satellite'', name), (''passes'', PList qs)]),
         w\<lparr>requests := requests w @
              [(passes_url ''/radiopasses/'' E c sat_id lat lng alt days min_elevation,
                Some 10)]\<rparr>)"
    "length qs = length ps"
    "\<forall>i<length ps. radio_pass_record E convert_to_local (ps ! i) = Inr (qs ! i)"
    using radio_passes_call [OF assms(1,2) ok assms(4,5)] by blast
  have "field (qs ! i) ''duration_sec'' = Some (PInt (e - s))"
    if "i < length ps" and "field (ps ! i) ''startUTC'' = Some (PInt s)"
      and "field (ps ! i) ''endUTC'' = Some (PInt e)" for i s e
  proof -
    have "radio_pass_ok E convert_to_local (ps ! i)"
      using ok that(1) by simp
    then show ?thesis
      using radio_pass_record_ok [of E convert_to_local "ps ! i"] q(3) that by auto
  qed
  then show ?thesis
    using q(1,2) by blast
qed

theorem radio_duration_computed_witness:
  "responds_with (in_zone 3600 (serving (passes_payload [radio_pass 1000 1090 5])))
     (passes_url ''/radiopasses/''
        (in_zone 3600 (serving (passes_payload [radio_pass 1000 1090 5])))
        demo_client (PInt 25544) (PInt 40) (PInt 9) (PInt 10) (PInt 2) (PInt 30))
     (passes_payload [radio_pass 1000 1090 5]) \<and>
   field (passes_payload [radio_pass 1000 1090 5]) ''passes'' =
     Some (PList [radio_pass 1000 1090 5]) \<and>
   list_all (radio_pass_ok (in_zone 3600 (serving (passes_payload [radio_pass 1000 1090 5])))
     True) [radio_pass 1000 1090 5] \<and>
   field (passes_payload [radio_pass 1000 1090 5]) ''info'' = Some iss_info \<and>
   field iss_info ''satname'' = Some (PStr ''SPACE STATION'') \<and>
   field (radio_pass 1000 1090 5) ''startUTC'' = Some (PInt 1000) \<and>
   field (radio_pass 1000 1090 5) ''endUTC'' = Some (PInt 1090) \<and>
   field (radio_pass 1000 1090 5) ''duration'' = Some (PInt 5) \<and>
   get_radio_passes (in_zone 3600 (serving (passes_payload [radio_pass 1000 1090 5])))
       demo_client (PInt 25544) (PInt 40) (PInt 9) (PInt 10) (PInt 2) (PInt 30) True
       fresh_world =
     (Inr (PDict [(''satellite'', PStr ''SPACE STATION''),
                  (''passes'', PList [radio_record 3600 1000 1090])]),
      \<lparr>requests =
         [(''https://api.n2yo.com/rest/v1/satellite/radiopasses/25544/40/9/10/2/30/&apiKey=KEY'',
           Some 10)],
       stdout = []\<rparr>) \<and>
   field (radio_record 3600 1000 1090) ''duration_sec'' = Some (PInt 90)"
  using radio_duration_computed [of
      "in_zone 3600 (serving (passes_payload [radio_pass 1000 1090 5]))" demo_client
      "PInt 25544" "PInt 40" "PInt 9" "PInt 10" "PInt 2" "PInt 30"
      "passes_payload [radio_pass 1000 1090 5]" "[radio_pass 1000 1090 5]" True iss_info
      "PStr ''SPACE STATION''" fresh_world]
  by (simp add: fixture_simps url_simps eval_simps radio_pass_ok_def get_radio_passes_def
      radio_passes_body_def radio_pass_record_def)

subsection \<open>Order of the results\<close>

text \<open>
  Claim C9. For a payload of the documented shape, the list in the result of
  \<^verbatim>\<open>get_visual_passes\<close>, \<^verbatim>\<open>get_radio_passes\<close>, \<^verbatim>\<open>get_positions\<close> and \<^verbatim>\<open>get_objects_above\<close> is as
  long as the list of the payload, and its element at each index is the record that the
  operation makes from the payload's element at that index: nothing is reordered, dropped,
  merged or added.
\<close>

theorem result_lists_follow_payload:
  "(responds_with E
      (passes_url ''/visualpasses/'' E c sat_id lat lng alt days min_visibility) vdata \<and>
    field vdata ''passes'' = Some (PList vs) \<and>
    list_all (visual_pass_ok E convert_to_local) vs \<and>
    field vdata ''info'' = Some vinfo \<and> field vinfo ''satname'' = Some vname \<longrightarrow>
    (\<exists>qs.
       fst (get_visual_passes E c sat_id lat lng alt days min_visibility convert_to_local w) =
         Inr (PDict [(''satellite'', vname), (''passes'', PList qs)]) \<and>
       length qs = length vs \<and>
       (\<forall>i<length vs. visual_pass_record E convert_to_local (vs ! i) = Inr (qs ! i)))) \<and>
   (responds_with E
      (passes_url ''/radiopasses/'' E c sat_id lat lng alt days min_elevation) rdata \<and>
    field rdata ''passes'' = Some (PList rs) \<and>
    list_all (radio_pass_ok E convert_to_local) rs \<and>
    field rdata ''info'' = Some rinfo \<and> field rinfo ''satname'' = Some rname \<longrightarrow>
    (\<exists>qs.
       fst (get_radio_passes E c sat_id lat lng alt days min_elevation convert_to_local w) =
         Inr (PDict [(''satellite'', rname), (''passes'', PList qs)]) \<and>
       length qs = length rs \<and>
       (\<forall>i<length rs. radio_pass_record E convert_to_local (rs ! i) = Inr (qs ! i)))) \<and>
   (list_all truthy [sat_id, lat, lng] \<and> py_gt seconds 300 = Inr False \<and>
    responds_with E (positions_url E c sat_id lat lng alt seconds) pdata \<and>
    field pdata ''positions'' = Some (PList ps) \<and>
    list_all position_ok ps \<and>
    field pdata ''info'' = Some pinfo \<and> field pinfo ''satid'' = Some pid \<and>
    field pinfo ''satname'' = Some pname \<and>
    field pinfo ''transactionscount'' = Some transactions \<longrightarrow>
    (\<exists>qs.
       fst (get_positions E c sat_id lat lng alt seconds w) =
         Inr (PDict [(''satid'', pid), (''satname'', pname), (''transactions'', transactions),
                     (''positions'', PList qs)]) \<and>
       length qs = length ps \<and>
       (\<forall>i<length ps. position_record (ps ! i) = Inr (qs ! i)))) \<and>
   (responds_with E (above_url E c lat lng alt search_radius category_id) adata \<and>
    field adata ''above'' = Some (PList sats) \<and>
    list_all satellite_ok sats \<and>
    field adata ''info'' = Some ainfo \<and> field ainfo ''category'' = Some category \<and>
    field ainfo ''satcount'' = Some satcount \<longrightarrow>
    (\<exists>count qs.
       fst (get_objects_above E c lat lng alt search_radius category_id w) =
         Inr (PDict [(''category'', category), (''count'', count), (''satellites'', PList qs)]) \<and>
       length qs = length sats \<and>
       (\<forall>i<length sats. satellite_record (sats ! i) = Inr (qs ! i))))"
proof (intro conjI impI)
  assume a: "responds_with E
      (passes_url ''/visualpasses/'' E c sat_id lat lng alt days min_visibility) vdata \<and>
    field vdata ''passes'' = Some (PList vs) \<and>
    list_all (visual_pass_ok E convert_to_local) vs \<and>
    field vdata ''info'' = Some vinfo \<and> field vinfo ''satname'' = Some vname"
  then have "\<forall>p\<in>set vs. visual_pass_ok E convert_to_local p"
    by (simp add: list_all_iff)
  then obtain qs where
    "get_visual_passes E c sat_id lat lng alt days min_visibility convert_to_local w =
        (Inr (PDict [(''satellite'', vname), (''passes'', PList qs)]),
         w\<lparr>requests := requests w @
              [(passes_url ''/visualpasses/'' E c sat_id lat lng alt days min_visibility,
                Some 10)]\<rparr>)"
    "length qs = length vs"
    "\<forall>i<length vs. visual_pass_record E convert_to_local (vs ! i) = Inr (qs ! i)"
    using a visual_passes_call [of E c sat_id lat lng alt days min_visibility vdata vs
        convert_to_local vinfo vname w]
    by blast
  then show "\<exists>qs.
       fst (get_visual_passes E c sat_id lat lng alt days min_visibility convert_to_local w) =
         Inr (PDict [(''satellite'', vname), (''passes'', PList qs)]) \<and>
       length qs = length vs \<and>
       (\<forall>i<length vs. visual_pass_record E convert_to_local (vs ! i) = Inr (qs ! i))"
    by (intro exI [of _ qs]) simp
next
  assume a: "responds_with E
      (passes_url ''/radiopasses/'' E c sat_id lat lng alt days min_elevation) rdata \<and>
    field rdata ''passes'' = Some (PList rs) \<and>
    list_all (radio_pass_ok E convert_to_local) rs \<and>
    field rdata ''info'' = Some rinfo \<and> field rinfo ''satname'' = Some rname"
  then have "\<forall>p\<in>set rs. radio_pass_ok E convert_to_local p"
    by (simp add: list_all_iff)
  then obtain qs where
    "get_radio_passes E c sat_id lat lng alt days min_elevation convert_to_local w =
        (Inr (PDict [(''satellite'', rname), (''passes'', PList qs)]),
         w\<lparr>requests := requests w @
              [(passes_url ''/radiopasses/'' E c sat_id lat lng alt days min_elevation,
                Some 10)]\<rparr>)"
    "length qs = length rs"
    "\<forall>i<length rs. radio_pass_record E convert_to_local (rs ! i) = Inr (qs ! i)"
    using a radio_passes_call [of E c sat_id lat lng alt days min_elevation rdata rs
        convert_to_local rinfo rname w]
    by blast
  then show "\<exists>qs.
       fst (get_radio_passes E c sat_id lat lng alt days min_elevation convert_to_local w) =
         Inr (PDict [(''satellite'', rname), (''passes'', PList qs)]) \<and>
       length qs = length rs \<and>
       (\<forall>i<length rs. radio_pass_record E convert_to_local (rs ! i) = Inr (qs ! i))"
    by (intro exI [of _ qs]) simp
next
  assume a: "list_all truthy [sat_id, lat, lng] \<and> py_gt seconds 300 = Inr False \<and>
    responds_with E (positions_url E c sat_id lat lng alt seconds) pdata \<and>
    field pdata ''positions'' = Some (PList ps) \<and>
    list_all position_ok ps \<and>
    field pdata ''info'' = Some pinfo \<and> field pinfo ''satid'' = Some pid \<and>
    field pinfo ''satname'' = Some pname \<and>
    field pinfo ''transactionscount'' = Some transactions"
  then have "\<forall>p\<in>set ps. position_ok p"
    by (simp add: list_all_iff)
  then obtain qs where
    "get_positions E c sat_id lat lng alt seconds w =
        (Inr (PDict [(''satid'', pid), (''satname'', pname), (''transactions'', transactions),
                     (''positions'', PList qs)]),
         w\<lparr>requests := requests w @ [(positions_url E c sat_id lat lng alt seconds, None)]\<rparr>)"
    "length qs = length ps"
    "\<forall>i<length ps. position_record (ps ! i) = Inr (qs ! i)"
    using a positions_call [of sat_id lat lng seconds E c alt pdata ps pinfo pid pname
        transactions w]
    by blast
  then show "\<exists>qs.
       fst (get_positions E c sat_id lat lng alt seconds w) =
         Inr (PDict [(''satid'', pid), (''satname'', pname), (''transactions'', transactions),
                     (''positions'', PList qs)]) \<and>
       length qs = length ps \<and>
       (\<forall>i<length ps. position_record (ps ! i) = Inr (qs ! i))"
    by (intro exI [of _ qs]) simp
next
  assume a: "responds_with E (above_url E c lat lng alt search_radius category_id) adata \<and>
    field adata ''above'' = Some (PList sats) \<and>
    list_all satellite_ok sats \<and>
    field adata ''info'' = Some ainfo \<and> field ainfo ''category'' = Some category \<and>
    field ainfo ''satcount'' = Some satcount"
  then have "\<forall>sat\<in>set sats. satellite_ok sat"
    by (simp add: list_all_iff)
  then obtain qs where
    "get_objects_above E c lat lng alt search_radius category_id w =
        (Inr (PDict [(''category'', category),
                     (''count'', if sats = [] then PInt 0 else satcount),
                     (''satellites'', PList qs)]),
         w\<lparr>requests := requests w @
              [(above_url E c lat lng alt search_radius category_id, Some 15)]\<rparr>)"
    "length qs = length sats"
    "\<forall>i<length sats. satellite_record (sats ! i) = Inr (qs ! i)"
    using a objects_above_call_any [of E c lat lng alt search_radius category_id adata sats
        ainfo category satcount w]
    by blast
  then show "\<exists>count qs.
       fst (get_objects_above E c lat lng alt search_radius category_id w) =
         Inr (PDict [(''category'', category), (''count'', count), (''satellites'', PList qs)]) \<and>
       length qs = length sats \<and>
       (\<forall>i<length sats. satellite_record (sats ! i) = Inr (qs ! i))"
    by (intro exI [of _ "if sats = [] then PInt 0 else satcount"] exI [of _ qs]) simp
qed

theorem result_lists_follow_payload_witness:
  "responds_with
     (serving (passes_payload
        [visual_pass 2000 2100, visual_pass 1000 1200, visual_pass 2000 2100]))
     (passes_url ''/visualpasses/''
        (serving (passes_payload
           [visual_pass 2000 2100, visual_pass 1000 1200, visual_pass 2000 2100]))
        demo_client (PInt 25544) (PInt 40) (PInt 9) (PInt 10) (PInt 2) (PInt 60))
     (passes_payload [visual_pass 2000 2100, visual_pass 1000 1200, visual_pass 2000 2100]) \<and>
   field (passes_payload [visual_pass 2000 2100, visual_pass 1000 1200, visual_pass 2000 2100])
     ''passes'' =
     Some (PList [visual_pass 2000 2100, visual_pass 1000 1200, visual_pass 2000 2100]) \<and>
   list_all
     (visual_pass_ok
        (serving (passes_payload
           [visual_pass 2000 2100, visual_pass 1000 1200, visual_pass 2000 2100])) False)
     [visual_pass 2000 2100, visual_pass 1000 1200, visual_pass 2000 2100] \<and>
   field (passes_payload [visual_pass 2000 2100, visual_pass 1000 1200, visual_pass 2000 2100])
     ''info'' = Some iss_info \<and>
   field iss_info ''satname'' = Some (PStr ''SPACE STATION'') \<and>
   fst (get_visual_passes
          (serving (passes_payload
             [visual_pass 2000 2100, visual_pass 1000 1200, visual_pass 2000 2100]))
          demo_client (PInt 25544) (PInt 40) (PInt 9) (PInt 10) (PInt 2) (PInt 60) False
          fresh_world) =
     Inr (PDict [(''satellite'', PStr ''SPACE STATION''),
                 (''passes'', PList [visual_record 2000 2100, visual_record 1000 1200,
                                     visual_record 2000 2100])]) \<and>
   responds_with
     (in_zone 0 (serving (passes_payload [radio_pass 2000 2100 0, radio_pass 1000 1200 0])))
     (passes_url ''/radiopasses/''
        (in_zone 0 (serving (passes_payload [radio_pass 2000 2100 0, radio_pass 1000 1200 0])))
        demo_client (PInt 25544) (PInt 40) (PInt 9) (PInt 10) (PInt 2) (PInt 30))
     (passes_payload [radio_pass 2000 2100 0, radio_pass 1000 1200 0]) \<and>
   field (passes_payload [radio_pass 2000 2100 0, radio_pass 1000 1200 0]) ''passes'' =
     Some (PList [radio_pass 2000 2100 0, radio_pass 1000 1200 0]) \<and>
   list_all
     (radio_pass_ok
        (in_zone 0 (serving (passes_payload [radio_pass 2000 2100 0, radio_pass 1000 1200 0])))
        True)
     [radio_pass 2000 2100 0, radio_pass 1000 1200 0] \<and>
   field (passes_payload [radio_pass 2000 2100 0, radio_pass 1000 1200 0]) ''info'' =
     Some iss_info \<and>
   fst (get_radio_passes
          (in_zone 0 (serving (passes_payload [radio_pass 2000 2100 0, radio_pass 1000 1200 0])))
          demo_client (PInt 25544) (PInt 40) (PInt 9) (PInt 10) (PInt 2) (PInt 30) True
          fresh_world) =
     Inr (PDict [(''satellite'', PStr ''SPACE STATION''),
                 (''passes'', PList [radio_record 0 2000 2100, radio_record 0 1000 1200])]) \<and>
   list_all truthy [PInt 25544, PInt 40, PInt 9] \<and>
   py_gt (PInt 60) 300 = Inr False \<and>
   responds_with (serving (positions_payload [position_at 7, position_at 3, position_at 7]))
     (positions_url (serving (positions_payload [position_at 7, position_at 3, position_at 7]))
        demo_client (PInt 25544) (PInt 40) (PInt 9) (PInt 10) (PInt 60))
     (positions_payload [position_at 7, position_at 3, position_at 7]) \<and>
   field (positions_payload [position_at 7, position_at 3, position_at 7]) ''positions'' =
     Some (PList [position_at 7, position_at 3, position_at 7]) \<and>
   list_all position_ok [position_at 7, position_at 3, position_at 7] \<and>
   field (positions_payload [position_at 7, position_at 3, position_at 7]) ''info'' =
     Some iss_info \<and>
   field iss_info ''satid'' = Some (PInt 25544) \<and>
   field iss_info ''transactionscount'' = Some (PInt 4) \<and>
   fst (get_positions (serving (positions_payload [position_at 7, position_at 3, position_at 7]))
          demo_client (PInt 25544) (PInt 40) (PInt 9) (PInt 10) (PInt 60) fresh_world) =
     Inr (PDict [(''satid'', PInt 25544), (''satname'', PStr ''SPACE STATION''),
                 (''transactions'', PInt 4),
                 (''positions'', PList [position_record_at 7, position_record_at 3,
                                        position_record_at 7])]) \<and>
   responds_with (serving (above_payload [iss_above, iss_above]))
     (above_url (serving (above_payload [iss_above, iss_above])) demo_client (PInt 40) (PInt 9)
        (PInt 10) (PInt 90) (PInt 0))
     (above_payload [iss_above, iss_above]) \<and>
   field (above_payload [iss_above, iss_above]) ''above'' = Some (PList [iss_above, iss_above]) \<and>
   list_all satellite_ok [iss_above, iss_above] \<and>
   field (above_payload [iss_above, iss_above]) ''info'' =
     Some (PDict [(''category'', PStr ''ANY''), (''satcount'', PInt 5)]) \<and>
   field (PDict [(''category'', PStr ''ANY''), (''satcount'', PInt 5)]) ''category'' =
     Some (PStr ''ANY'') \<and>
   field (PDict [(''category'', PStr ''ANY''), (''satcount'', PInt 5)]) ''satcount'' =
     Some (PInt 5) \<and>
   fst (get_objects_above (serving (above_payload [iss_above, iss_above])) demo_client (PInt 40)
          (PInt 9) (PInt 10) (PInt 90) (PInt 0) fresh_world) =
     Inr (PDict [(''category'', PStr ''ANY''), (''count'', PInt 5),
                 (''satellites'', PList [iss_above_record, iss_above_record])])"
  using
    result_lists_follow_payload [where
      E = "serving (passes_payload
             [visual_pass 2000 2100, visual_pass 1000 1200, visual_pass 2000 2100])"
      and c = demo_client and sat_id = "PInt 25544" and lat = "PInt 40" and lng = "PInt 9"
      and alt = "PInt 10" and days = "PInt 2" and min_visibility = "PInt 60"
      and vdata = "passes_payload
             [visual_pass 2000 2100, visual_pass 1000 1200, visual_pass 2000 2100]"
      and vs = "[visual_pass 2000 2100, visual_pass 1000 1200, visual_pass 2000 2100]"
      and convert_to_local = False and vinfo = iss_info and vname = "PStr ''SPACE STATION''"
      and w = fresh_world]
    result_lists_follow_payload [where
      E = "in_zone 0 (serving (passes_payload [radio_pass 2000 2100 0, radio_pass 1000 1200 0]))"
      and c = demo_client and sat_id = "PInt 25544" and lat = "PInt 40" and lng = "PInt 9"
      and alt = "PInt 10" and days = "PInt 2" and min_elevation = "PInt 30"
      and rdata = "passes_payload [radio_pass 2000 2100 0, radio_pass 1000 1200 0]"
      and rs = "[radio_pass 2000 2100 0, radio_pass 1000 1200 0]"
      and convert_to_local = True and rinfo = iss_info and rname = "PStr ''SPACE STATION''"
      and w = fresh_world]
    result_lists_follow_payload [where
      E = "serving (positions_payload [position_at 7, position_at 3, position_at 7])"
      and c = demo_client and sat_id = "PInt 25544" and lat = "PInt 40" and lng = "PInt 9"
      and alt = "PInt 10" and seconds = "PInt 60"
      and pdata = "positions_payload [position_at 7, position_at 3, position_at 7]"
      and ps = "[position_at 7, position_at 3, position_at 7]"
      and pinfo = iss_info and pid = "PInt 25544" and pname = "PStr ''SPACE STATION''"
      and transactions = "PInt 4" and w = fresh_world]
    result_lists_follow_payload [where
      E = "serving (above_payload [iss_above, iss_above])"
      and c = demo_client and lat = "PInt 40" and lng = "PInt 9" and alt = "PInt 10"
      and search_radius = "PInt 90" and category_id = "PInt 0"
      and adata = "above_payload [iss_above, iss_above]" and sats = "[iss_above, iss_above]"
      and ainfo = "PDict [(''category'', PStr ''ANY''), (''satcount'', PInt 5)]"
      and category = "PStr ''ANY''" and satcount = "PInt 5" and w = fresh_world]
  by (simp add: fixture_simps url_simps eval_simps
      visual_pass_ok_def radio_pass_ok_def position_ok_def satellite_ok_def
      get_visual_passes_def visual_passes_body_def visual_pass_record_def
      get_radio_passes_def radio_passes_body_def radio_pass_record_def
      get_positions_def positions_body_def position_record_def
      get_objects_above_def objects_above_body_def satellite_record_def
      parse_launch_date_def strptime_ymd_str_def match_year_def month_alts_def day_alts_def
      is_digit_def digit_val_def digit_in_def)

end
